theory Spec2Isabelle
  imports Main "HOL-Library.Word"
begin

section \<open>Strings\<close>

text \<open>
  A JavaScript string is a sequence of UTF-16 code units. The regular expression of
  \<^verbatim>\<open>main.ts\<close> line 139 and \<^verbatim>\<open>String.prototype.trim\<close> classify code units beyond
  ASCII (no-break space, line separator, ...), so strings are lists of 16-bit words.
\<close>

type_synonym code_unit = "16 word"
type_synonym jsstring = "code_unit list"

definition js :: "string \<Rightarrow> jsstring" where
  "js = map of_char"

text \<open>
  \<^verbatim>\<open>LineTerminator\<close> of ECMAScript: LF, CR, LS, PS. The regular expression atom \<^verbatim>\<open>.\<close>
  (no \<^verbatim>\<open>s\<close> flag) matches every code unit that is not one of them.
\<close>

definition is_line_terminator :: "code_unit \<Rightarrow> bool" where
  "is_line_terminator c = (c = 0x000A \<or> c = 0x000D \<or> c = 0x2028 \<or> c = 0x2029)"

text \<open>
  The class \<^verbatim>\<open>\s\<close>, which is also what \<^verbatim>\<open>trim\<close> strips: \<^verbatim>\<open>WhiteSpace\<close> (TAB, VT, FF,
  the space separators, ZWNBSP) together with \<^verbatim>\<open>LineTerminator\<close>.
\<close>

definition is_white_space :: "code_unit \<Rightarrow> bool" where
  "is_white_space c =
     (c = 0x0009 \<or> c = 0x000A \<or> c = 0x000B \<or> c = 0x000C \<or> c = 0x000D \<or> c = 0x0020
      \<or> c = 0x00A0 \<or> c = 0x1680 \<or> (0x2000 \<le> c \<and> c \<le> 0x200A)
      \<or> c = 0x2028 \<or> c = 0x2029 \<or> c = 0x202F \<or> c = 0x205F \<or> c = 0x3000 \<or> c = 0xFEFF)"

definition is_dot :: "code_unit \<Rightarrow> bool" where
  "is_dot c = (\<not> is_line_terminator c)"

text \<open>\<^verbatim>\<open>String.prototype.trim\<close>: white space is removed from both ends.\<close>

definition js_trim :: "jsstring \<Rightarrow> jsstring" where
  "js_trim s = rev (dropWhile is_white_space (rev (dropWhile is_white_space s)))"

subsection \<open>The regular expression \<^verbatim>\<open>/(.*)\s*$/\<close>\<close>

text \<open>
  A backtracking matcher tries the alternatives of a quantifier in order and keeps the
  first one for which the rest of the pattern matches.
\<close>

fun first_success :: "('a \<Rightarrow> 'b option) \<Rightarrow> 'a list \<Rightarrow> 'b option" where
  "first_success f [] = None"
| "first_success f (x # xs) = (case f x of Some y \<Rightarrow> Some y | None \<Rightarrow> first_success f xs)"

text \<open>
  The repetition counts a greedy star over the class \<open>p\<close> tries at the start of \<open>s\<close>:
  the longest run first, then shorter ones down to zero.
\<close>

definition greedy :: "(code_unit \<Rightarrow> bool) \<Rightarrow> jsstring \<Rightarrow> nat list" where
  "greedy p s = rev [0..<Suc (length (takeWhile p s))]"

text \<open>
  One attempt of \<^verbatim>\<open>(.*)\s*$\<close> at the start of \<open>s\<close>: \<open>k\<close> code units for \<^verbatim>\<open>.*\<close>, then
  \<open>j\<close> for \<^verbatim>\<open>\s*\<close>, then \<^verbatim>\<open>$\<close> (no \<^verbatim>\<open>m\<close> flag) demands the end of the input. The
  result is the length of the match.
\<close>

definition match_here :: "jsstring \<Rightarrow> nat option" where
  "match_here s =
     first_success
       (\<lambda>k. first_success
              (\<lambda>j. if drop (k + j) s = [] then Some (k + j) else None)
              (greedy is_white_space (drop k s)))
       (greedy is_dot s)"

text \<open>
  \<^verbatim>\<open>String.prototype.match\<close> with a non-global expression: the attempt is made at
  index 0, 1, ... up to and including the length of the input, and the first success
  wins. The result is element 0 of the match array (the matched substring), which is
  all the caller reads; \<open>None\<close> is \<^verbatim>\<open>null\<close>.
\<close>

fun regexp_match :: "jsstring \<Rightarrow> jsstring option" where
  "regexp_match [] = map_option (\<lambda>n. take n []) (match_here [])"
| "regexp_match (c # cs) =
     (case match_here (c # cs) of
        Some n \<Rightarrow> Some (take n (c # cs))
      | None \<Rightarrow> regexp_match cs)"

text \<open>
  The interpolated expression of line 139:
  \<^verbatim>\<open>res.stderr.match(/(.*)\s*$/)?.[0]?.trim() ?? 'unknown error'\<close>.
  The operator \<^verbatim>\<open>??\<close> takes its right operand only for \<^verbatim>\<open>null\<close> and \<^verbatim>\<open>undefined\<close>,
  not for the empty string.
\<close>

definition extracted :: "jsstring \<Rightarrow> jsstring" where
  "extracted stderr =
     (case regexp_match stderr of
        None \<Rightarrow> js ''unknown error''
      | Some m \<Rightarrow> js_trim m)"

subsection \<open>Lines of a text\<close>

text \<open>
  The lines of a text, split at every line terminator, and the last line that carries
  something other than white space. These are used to describe what \<open>extracted\<close>
  returns; the program itself does not split its input.
\<close>

fun js_lines :: "jsstring \<Rightarrow> jsstring list" where
  "js_lines [] = [[]]"
| "js_lines (c # cs) =
     (if is_line_terminator c then [] # js_lines cs
      else (case js_lines cs of l # ls \<Rightarrow> (c # l) # ls | [] \<Rightarrow> [[c]]))"

definition blank :: "jsstring \<Rightarrow> bool" where
  "blank s = list_all is_white_space s"


definition last_line :: "jsstring \<Rightarrow> jsstring" where
  "last_line s = last (filter (\<lambda>l. \<not> blank l) (js_lines s))"


text \<open>
  The message as the specification words it: the last non-empty line of the captured
  stderr with trailing white space removed, and \<^verbatim>\<open>unknown error\<close> when there is no
  such line (for instance when stderr is white space only).
\<close>

definition rtrim :: "jsstring \<Rightarrow> jsstring" where
  "rtrim s = rev (dropWhile is_white_space (rev s))"

definition spec_extracted :: "jsstring \<Rightarrow> jsstring" where
  "spec_extracted stderr =
     (case filter (\<lambda>l. \<not> blank l) (js_lines stderr) of
        [] \<Rightarrow> js ''unknown error''
      | l # ls \<Rightarrow> rtrim (last (l # ls)))"

section \<open>Data\<close>

text \<open>
  The fields of \<^verbatim>\<open>context.Inputs\<close> that \<^verbatim>\<open>main.ts\<close> reads. An input that was not
  given is the empty string.
\<close>

record inputs =
  in_builder :: jsstring
  in_files :: "jsstring list"
  in_load :: bool
  in_no_cache :: bool
  in_set :: "jsstring list"
  in_provenance :: jsstring
  in_push :: bool
  in_sbom :: jsstring
  in_source :: jsstring
  in_targets :: "jsstring list"
  in_workdir :: jsstring
  in_github_token :: jsstring

text \<open>The first argument of \<^verbatim>\<open>toolkit.buildxBake.getDefinition\<close> (lines 95 to 106).\<close>

record bake_cmd_opts =
  bo_files :: "jsstring list"
  bo_load :: bool
  bo_noCache :: bool
  bo_overrides :: "jsstring list"
  bo_provenance :: jsstring
  bo_push :: bool
  bo_sbom :: jsstring
  bo_source :: jsstring
  bo_targets :: "jsstring list"
  bo_githubToken :: jsstring

text \<open>Documents that the program passes on without looking inside.\<close>

datatype bake_definition = BakeDefinition jsstring
datatype metadata = BakeMetadata jsstring
datatype upload_res = UploadRes jsstring

text \<open>\<^verbatim>\<open>BuilderInfo\<close>: both fields are optional in the toolkit's type.\<close>

record builder_info =
  name :: "jsstring option"
  driver :: "jsstring option"

text \<open>
  The Docker configuration file: \<open>proxies\<close> maps a host to its key/value settings, in
  the order in which \<^verbatim>\<open>for ... in\<close> enumerates them.
\<close>

record config_file =
  proxies :: "(jsstring \<times> (jsstring \<times> jsstring) list) list option"

type_synonym environment = "(jsstring \<times> jsstring) list"

record build_cmd =
  command :: jsstring
  args :: "jsstring list"

record exec_options =
  eo_cwd :: jsstring
  eo_env :: environment
  eo_ignoreReturnCode :: bool

record exec_output =
  exitCode :: int
  stdout :: jsstring
  stderr :: jsstring

text \<open>A record of the build engine's history store.\<close>

record history_record =
  ref_id :: jsstring
  rec_builder :: jsstring
  created :: int

record refs_opts =
  ro_dir :: jsstring
  ro_builderName :: "jsstring option"
  ro_since :: int

record export_res =
  dockerbuildFilename :: jsstring
  dockerbuildSize :: nat

record upload_opts =
  up_filename :: jsstring
  up_mimeType :: jsstring
  up_retentionDays :: nat

record summary_opts =
  su_exportRes :: export_res
  su_uploadRes :: upload_res
  su_inputs :: "inputs option"
  su_bakeDefinition :: "bake_definition option"

datatype json_arg = J_inputs inputs | J_builder builder_info | J_metadata metadata

subsection \<open>Errors\<close>

text \<open>
  An exception is a value. The two \<^verbatim>\<open>Error\<close> objects that \<^verbatim>\<open>main.ts\<close> creates itself
  (line 139 and line 113) are told apart from what a collaborator throws, as object
  identity tells them apart in JavaScript.
\<close>

datatype error =
    BakeFailed jsstring
  | DefinitionNotSet
  | Rejected jsstring

fun message :: "error \<Rightarrow> jsstring" where
  "message (BakeFailed m) = m"
| "message DefinitionNotSet = js ''Bake definition not set''"
| "message (Rejected m) = m"

text \<open>\<^verbatim>\<open>${e}\<close> of an \<^verbatim>\<open>Error\<close> object.\<close>

definition error_string :: "error \<Rightarrow> jsstring" where
  "error_string e = js ''Error: '' @ message e"

subsection \<open>Effects\<close>

text \<open>
  Every call that leaves \<^verbatim>\<open>main.ts\<close> is an event: logging, the setters of the state
  helper, and the calls to the toolkit, the subprocess runner and the file system.
\<close>

datatype event =
    E_newDate
  | E_getInputs
  | E_debug jsstring
  | E_info jsstring
  | E_warning jsstring
  | E_setFailed jsstring
  | E_setOutput jsstring jsstring
  | E_startGroup jsstring
  | E_endGroup
  | E_setInputs inputs
  | E_setTmpDir jsstring
  | E_setBuilder builder_info
  | E_setBakeDefinition bake_definition
  | E_setBuildRefs "jsstring list"
  | E_printActionsRuntimeTokenACs
  | E_dockerPrintVersion
  | E_dockerPrintInfo
  | E_dockerConfigFile
  | E_buildxIsAvailable
  | E_tmpDir
  | E_buildxPrintVersion
  | E_builderInspect "jsstring option"
  | E_getDefinition bake_cmd_opts jsstring
  | E_getArgs
  | E_getCommand "jsstring list"
  | E_exec jsstring "jsstring list" exec_options
  | E_getExecOutput jsstring "jsstring list" exec_options
  | E_resolveMetadata
  | E_resolveRefs
  | E_buildxRefs refs_opts
  | E_historyExport "jsstring list"
  | E_uploadArtifact upload_opts
  | E_writeBuildSummary summary_opts
  | E_rmSync jsstring bool

text \<open>
  A computation yields the events it caused, in order, and either the exception that
  ended it (\<open>Inl\<close>) or its value (\<open>Inr\<close>).
\<close>

type_synonym 'a io = "event list \<times> (error + 'a)"

definition io_return :: "'a \<Rightarrow> 'a io" where
  "io_return x = ([], Inr x)"

definition io_throw :: "error \<Rightarrow> 'a io" where
  "io_throw e = ([], Inl e)"

definition emit :: "event \<Rightarrow> unit io" where
  "emit ev = ([ev], Inr ())"

definition log_all :: "event list \<Rightarrow> unit io" where
  "log_all evs = (evs, Inr ())"

text \<open>
  A collaborator answers with a value or with the message of the exception it throws.
\<close>

definition outcome :: "jsstring + 'a \<Rightarrow> error + 'a" where
  "outcome answer = (case answer of Inl m \<Rightarrow> Inl (Rejected m) | Inr x \<Rightarrow> Inr x)"

text \<open>A call to a collaborator: the call is recorded, the collaborator's answer is its outcome.\<close>

definition call :: "event \<Rightarrow> jsstring + 'a \<Rightarrow> 'a io" where
  "call ev answer = ([ev], outcome answer)"

definition io_bind :: "'a io \<Rightarrow> ('a \<Rightarrow> 'b io) \<Rightarrow> 'b io" where
  "io_bind m f =
     (case m of
        (t, Inl e) \<Rightarrow> (t, Inl e)
      | (t, Inr x) \<Rightarrow> (case f x of (t', r) \<Rightarrow> (t @ t', r)))"

definition try_catch :: "'a io \<Rightarrow> (error \<Rightarrow> 'a io) \<Rightarrow> 'a io" where
  "try_catch m handler =
     (case m of
        (t, Inl e) \<Rightarrow> (case handler e of (t', r) \<Rightarrow> (t @ t', r))
      | (t, Inr x) \<Rightarrow> (t, Inr x))"

text \<open>
  \<^verbatim>\<open>core.group\<close> opens the group, runs the body and closes the group in a
  \<^verbatim>\<open>finally\<close> clause, whether the body returned or threw.
\<close>

definition group :: "jsstring \<Rightarrow> 'a io \<Rightarrow> 'a io" where
  "group title body = (case body of (t, r) \<Rightarrow> (E_startGroup title # t @ [E_endGroup], r))"

subsection \<open>Truthiness\<close>

text \<open>
  In a condition, \<^verbatim>\<open>undefined\<close> and the empty string are false; every object is true,
  and an array is an object, the empty array included.
\<close>

definition truthy_array :: "'a list \<Rightarrow> bool" where
  "truthy_array xs = True"

definition truthy_string :: "jsstring \<Rightarrow> bool" where
  "truthy_string s = (s \<noteq> [])"

definition truthy_opt_string :: "jsstring option \<Rightarrow> bool" where
  "truthy_opt_string b = (case b of None \<Rightarrow> False | Some s \<Rightarrow> truthy_string s)"

definition truthy_opt_array :: "'a list option \<Rightarrow> bool" where
  "truthy_opt_array m = (case m of None \<Rightarrow> False | Some xs \<Rightarrow> truthy_array xs)"

section \<open>The environment of a run\<close>

text \<open>
  What the collaborators of the main phase answer. \<open>Inl\<close> is a rejected promise or a
  thrown exception, with its message. \<open>spawn\<close> is the subprocess itself: command, arguments, working
  directory and environment give its exit code and output, or the process cannot be
  started. \<open>history\<close> is the content of the build engine's history store when it is
  scanned.
\<close>

record world =
  now :: int
  process_env :: environment
  getInputs :: "jsstring + inputs"
  stringify :: "json_arg \<Rightarrow> nat \<Rightarrow> jsstring"
  printActionsRuntimeTokenACs :: "jsstring + unit"
  docker_printVersion :: "jsstring + unit"
  docker_printInfo :: "jsstring + unit"
  docker_configFile :: "jsstring + config_file option"
  docker_config_path :: jsstring
  buildx_isAvailable :: "jsstring + bool"
  context_tmpDir :: "jsstring + jsstring"
  buildx_printVersion :: "jsstring + unit"
  builder_inspect :: "jsstring option \<Rightarrow> jsstring + builder_info"
  getDefinition :: "bake_cmd_opts \<Rightarrow> jsstring \<Rightarrow> jsstring + bake_definition option"
  getArgs :: "inputs \<Rightarrow> bake_definition \<Rightarrow> jsstring + jsstring list"
  getCommand :: "jsstring list \<Rightarrow> jsstring + build_cmd"
  spawn :: "jsstring \<Rightarrow> jsstring list \<Rightarrow> jsstring \<Rightarrow> environment \<Rightarrow> jsstring + exec_output"
  exit_failure :: "jsstring \<Rightarrow> int \<Rightarrow> jsstring"
  resolveMetadata :: "jsstring + metadata option"
  resolveRefs :: "jsstring + jsstring list option"
  refsDir :: jsstring
  history :: "history_record list"

text \<open>What the collaborators of the post phase answer.\<close>

record post_world =
  pw_no_summary :: "jsstring option"
  parseBool :: "jsstring \<Rightarrow> jsstring + bool"
  history_export :: "jsstring list \<Rightarrow> jsstring + export_res"
  formatFileSize :: "nat \<Rightarrow> jsstring"
  uploadArtifact :: "upload_opts \<Rightarrow> jsstring + upload_res"
  writeBuildSummary :: "summary_opts \<Rightarrow> jsstring + unit"
  rmSync :: "jsstring \<Rightarrow> jsstring + unit"

text \<open>The state helper as the post phase reads it; a field never written has its default.\<close>

record post_state =
  st_buildRefs :: "jsstring list"
  st_tmpDir :: jsstring
  st_builder :: "builder_info option"
  st_inputs :: "inputs option"
  st_bakeDefinition :: "bake_definition option"

section \<open>Library calls\<close>

text \<open>
  Modelled from the spec: \<^verbatim>\<open>Exec.exec\<close> and \<^verbatim>\<open>Exec.getExecOutput\<close> belong to the
  toolkit and are not among the sources. The specification has the print pass "treat
  any non-zero exit here as a hard failure that aborts the run immediately" and the
  execution pass "capture stdout and stderr fully" and "not treat a non-zero exit code
  alone as failure"; the two calls of \<^verbatim>\<open>main.ts\<close> differ in the option
  \<^verbatim>\<open>ignoreReturnCode\<close>. So a call is rejected when the process exits with a non-zero
  code, unless that option is set; \<^verbatim>\<open>exec\<close> resolves to the exit code,
  \<^verbatim>\<open>getExecOutput\<close> to exit code, stdout and stderr. A process that cannot be started
  rejects either call.
\<close>

definition Exec_exec :: "world \<Rightarrow> jsstring \<Rightarrow> jsstring list \<Rightarrow> exec_options \<Rightarrow> int io" where
  "Exec_exec w commandLine as opts =
     io_bind (call (E_exec commandLine as opts) (spawn w commandLine as (eo_cwd opts) (eo_env opts)))
       (\<lambda>res. if exitCode res \<noteq> 0 \<and> \<not> eo_ignoreReturnCode opts
               then io_throw (Rejected (exit_failure w commandLine (exitCode res)))
               else io_return (exitCode res))"

definition Exec_getExecOutput ::
  "world \<Rightarrow> jsstring \<Rightarrow> jsstring list \<Rightarrow> exec_options \<Rightarrow> exec_output io" where
  "Exec_getExecOutput w commandLine as opts =
     io_bind (call (E_getExecOutput commandLine as opts)
                (spawn w commandLine as (eo_cwd opts) (eo_env opts)))
       (\<lambda>res. if exitCode res \<noteq> 0 \<and> \<not> eo_ignoreReturnCode opts
               then io_throw (Rejected (exit_failure w commandLine (exitCode res)))
               else io_return res)"

text \<open>
  A plain JavaScript object with string keys, as an association list in insertion
  order. Assigning to a key that is present replaces its value in place.
\<close>

fun obj_set :: "jsstring \<Rightarrow> 'v \<Rightarrow> (jsstring \<times> 'v) list \<Rightarrow> (jsstring \<times> 'v) list" where
  "obj_set k v [] = [(k, v)]"
| "obj_set k v ((k', v') # kvs) =
     (if k' = k then (k, v) # kvs else (k', v') # obj_set k v kvs)"

definition for_in :: "(jsstring \<times> 'v) list \<Rightarrow> jsstring list" where
  "for_in obj = map fst obj"

definition hasOwnProperty :: "(jsstring \<times> 'v) list \<Rightarrow> jsstring \<Rightarrow> bool" where
  "hasOwnProperty obj k = (map_of obj k \<noteq> None)"

text \<open>
  Modelled from the spec: \<^verbatim>\<open>Buildx.refs\<close> belongs to the toolkit and is not among the
  sources. The specification describes the history store as "a directory-backed record
  store keyed by builder name and creation time, queried for all records since
  timestamp T for builder B", and the scan as returning "all records whose builder
  matches and whose creation time is at or after since". The result is an object keyed
  by record identifier. The specification does not say what a scan without a builder
  name (absent or empty) returns; here such a scan does not constrain the builder.
\<close>

definition record_matches :: "refs_opts \<Rightarrow> history_record \<Rightarrow> bool" where
  "record_matches opts r =
     ((if truthy_opt_string (ro_builderName opts)
       then ro_builderName opts = Some (rec_builder r) else True)
      \<and> ro_since opts \<le> created r)"

definition Buildx_refs ::
  "history_record list \<Rightarrow> refs_opts \<Rightarrow> (jsstring \<times> history_record) list" where
  "Buildx_refs store opts =
     foldl (\<lambda>refs r. obj_set (ref_id r) r refs) [] (filter (record_matches opts) store)"

section \<open>The build reference resolver\<close>

text \<open>
  \<^verbatim>\<open>buildRefs\<close>, lines 208 to 231. \<open>metaRefs\<close> is an array or \<^verbatim>\<open>undefined\<close>; the loop
  of lines 225 to 229 pushes every own key of the scan's result.
\<close>

definition buildRefs :: "world \<Rightarrow> int \<Rightarrow> jsstring option \<Rightarrow> jsstring list io" where
  "buildRefs w since builder =
     io_bind (call E_resolveRefs (resolveRefs w))
       (\<lambda>metaRefs.
          if truthy_opt_array metaRefs then io_return (case metaRefs of Some r \<Rightarrow> r | None \<Rightarrow> [])
          else
            io_bind
              (if \<not> truthy_opt_string builder
               then io_bind (call (E_builderInspect None) (builder_inspect w None))
                      (\<lambda>currentBuilder. io_return (name currentBuilder))
               else io_return builder)
              (\<lambda>builder'.
                 let opts = \<lparr>ro_dir = refsDir w, ro_builderName = builder', ro_since = since\<rparr>
                 in io_bind (call (E_buildxRefs opts) (Inr (Buildx_refs (history w) opts)))
                      (\<lambda>res. io_return
                                (foldl (\<lambda>refs ref. if hasOwnProperty res ref then refs @ [ref] else refs)
                                   [] (for_in res)))))"

section \<open>The main phase\<close>

text \<open>The group of lines 33 to 39.\<close>

definition group_runtime_token :: "world \<Rightarrow> unit io" where
  "group_runtime_token w =
     group (js ''GitHub Actions runtime token ACs'')
       (try_catch (call E_printActionsRuntimeTokenACs (printActionsRuntimeTokenACs w))
          (\<lambda>e. emit (E_warning (message e))))"

text \<open>The group of lines 41 to 48.\<close>

definition group_docker_info :: "world \<Rightarrow> unit io" where
  "group_docker_info w =
     group (js ''Docker info'')
       (try_catch
          (io_bind (call E_dockerPrintVersion (docker_printVersion w))
             (\<lambda>_. call E_dockerPrintInfo (docker_printInfo w)))
          (\<lambda>e. emit (E_info (message e))))"

text \<open>The two nested loops of lines 60 to 69.\<close>

definition proxy_lines :: "(jsstring \<times> (jsstring \<times> jsstring) list) list \<Rightarrow> event list" where
  "proxy_lines ps =
     concat (map (\<lambda>(host, kvs).
                    (if length ps > 1 then [E_info host] else []) @
                    map (\<lambda>(key, v). E_info ((if length ps > 1 then js ''  '' else []) @ key @ js '': '' @ v)) kvs)
               ps)"

text \<open>The group of lines 50 to 73.\<close>

definition group_proxy :: "world \<Rightarrow> unit io" where
  "group_proxy w =
     group (js ''Proxy configuration'')
       (io_bind
          (try_catch
             (io_bind (call E_dockerConfigFile (docker_configFile w))
                (\<lambda>dockerConfig. io_return (dockerConfig, False)))
             (\<lambda>e. io_bind
                     (emit (E_warning (js ''Unable to parse config file '' @ docker_config_path w
                                         @ js '': '' @ error_string e)))
                     (\<lambda>_. io_return (None, True))))
          (\<lambda>(dockerConfig, dockerConfigMalformed).
             case (case dockerConfig of None \<Rightarrow> None | Some c \<Rightarrow> proxies c) of
               Some ps \<Rightarrow> log_all (proxy_lines ps)
             | None \<Rightarrow>
                 if \<not> dockerConfigMalformed
                 then emit (E_info (js ''No proxy configuration found''))
                 else io_return ()))"

text \<open>The group of lines 86 to 90.\<close>

definition group_builder_info :: "world \<Rightarrow> inputs \<Rightarrow> unit io" where
  "group_builder_info w inp =
     group (js ''Builder info'')
       (io_bind (call (E_builderInspect (Some (in_builder inp)))
                   (builder_inspect w (Some (in_builder inp))))
          (\<lambda>b. io_bind (emit (E_info (stringify w (J_builder b) 2)))
                  (\<lambda>_. emit (E_setBuilder b))))"

text \<open>The group of lines 93 to 111; it resolves to the definition it assigned.\<close>

definition group_parse_definition ::
  "world \<Rightarrow> inputs \<Rightarrow> jsstring \<Rightarrow> bake_definition option io" where
  "group_parse_definition w inp gitAuthToken =
     group (js ''Parsing raw definition'')
       (let opts = \<lparr>bo_files = in_files inp, bo_load = in_load inp, bo_noCache = in_no_cache inp,
                    bo_overrides = in_set inp, bo_provenance = in_provenance inp,
                    bo_push = in_push inp, bo_sbom = in_sbom inp, bo_source = in_source inp,
                    bo_targets = in_targets inp, bo_githubToken = gitAuthToken\<rparr>
        in call (E_getDefinition opts (in_workdir inp)) (getDefinition w opts (in_workdir inp)))"

text \<open>
  What the main phase has in hand when it reaches line 125: the start time of line 24,
  the inputs, the build command of line 118 and the environment of lines 119 to 123.
\<close>

record bake_context =
  startedTime :: int
  cx_inputs :: inputs
  buildCmd :: build_cmd
  buildEnv :: environment

text \<open>
  Lines 24 to 123. The value is \<open>None\<close> when the phase returned at line 77 because
  buildx is not available.
\<close>

definition main_setup :: "world \<Rightarrow> bake_context option io" where
  "main_setup w =
     io_bind (emit E_newDate) (\<lambda>_.
     io_bind (call E_getInputs (getInputs w)) (\<lambda>inp.
     io_bind (emit (E_debug (js ''inputs: '' @ stringify w (J_inputs inp) 0))) (\<lambda>_.
     io_bind (emit (E_setInputs inp)) (\<lambda>_.
     let gitAuthToken =
           (case map_of (process_env w) (js ''BUILDX_BAKE_GIT_AUTH_TOKEN'') of
              Some t \<Rightarrow> t
            | None \<Rightarrow> in_github_token inp)
     in
     io_bind (group_runtime_token w) (\<lambda>_.
     io_bind (group_docker_info w) (\<lambda>_.
     io_bind (group_proxy w) (\<lambda>_.
     io_bind (call E_buildxIsAvailable (buildx_isAvailable w)) (\<lambda>available.
     if \<not> available
     then io_bind
            (emit (E_setFailed (js ''Docker buildx is required. See https://github.com/docker/setup-buildx-action to set up buildx.'')))
            (\<lambda>_. io_return None)
     else
     io_bind (call E_tmpDir (context_tmpDir w)) (\<lambda>tmp.
     io_bind (emit (E_setTmpDir tmp)) (\<lambda>_.
     io_bind (group (js ''Buildx version'') (call E_buildxPrintVersion (buildx_printVersion w))) (\<lambda>_.
     io_bind (group_builder_info w inp) (\<lambda>_.
     io_bind (group_parse_definition w inp gitAuthToken) (\<lambda>definition.
     case definition of
       None \<Rightarrow> io_throw DefinitionNotSet
     | Some def \<Rightarrow>
     io_bind (emit (E_setBakeDefinition def)) (\<lambda>_.
     io_bind (call E_getArgs (getArgs w inp def)) (\<lambda>as.
     io_bind (call (E_getCommand as) (getCommand w as)) (\<lambda>cmd.
     io_return
       (Some \<lparr>startedTime = now w, cx_inputs = inp, buildCmd = cmd,
              buildEnv = obj_set (js ''BUILDX_BAKE_GIT_AUTH_TOKEN'') gitAuthToken
                           (process_env w)\<rparr>)))))))))))))))))"

text \<open>The print pass, lines 125 to 130.\<close>

definition group_bake_definition :: "world \<Rightarrow> bake_context \<Rightarrow> unit io" where
  "group_bake_definition w cx =
     group (js ''Bake definition'')
       (io_bind
          (Exec_exec w (command (buildCmd cx)) (args (buildCmd cx) @ [js ''--print''])
             \<lparr>eo_cwd = in_workdir (cx_inputs cx), eo_env = buildEnv cx,
              eo_ignoreReturnCode = False\<rparr>)
          (\<lambda>_. io_return ()))"

text \<open>
  The callback of lines 137 to 141: the value of \<^verbatim>\<open>err\<close> after it has run on the output
  \<open>res\<close>.
\<close>

definition classify :: "exec_output \<Rightarrow> error option" where
  "classify res =
     (if length (stderr res) > 0 \<and> exitCode res \<noteq> 0
      then Some (BakeFailed (js ''buildx bake failed with: '' @ extracted (stderr res)))
      else None)"

text \<open>The execution pass, lines 132 to 141; its value is \<^verbatim>\<open>err\<close>.\<close>

definition execution_pass :: "world \<Rightarrow> bake_context \<Rightarrow> error option io" where
  "execution_pass w cx =
     io_bind
       (Exec_getExecOutput w (command (buildCmd cx)) (args (buildCmd cx))
          \<lparr>eo_cwd = in_workdir (cx_inputs cx), eo_env = buildEnv cx,
           eo_ignoreReturnCode = True\<rparr>)
       (\<lambda>res. io_return (classify res))"

text \<open>Lines 143 to 150.\<close>

definition metadata_step :: "world \<Rightarrow> unit io" where
  "metadata_step w =
     io_bind (call E_resolveMetadata (resolveMetadata w))
       (\<lambda>metadata.
          case metadata of
            Some md \<Rightarrow>
              group (js ''Metadata'')
                (io_bind (emit (E_info (stringify w (J_metadata md) 2)))
                   (\<lambda>_. emit (E_setOutput (js ''metadata'') (stringify w (J_metadata md) 2))))
          | None \<Rightarrow> io_return ())"

text \<open>The group of lines 151 to 161.\<close>

definition group_build_references :: "world \<Rightarrow> int \<Rightarrow> jsstring \<Rightarrow> unit io" where
  "group_build_references w since builder =
     group (js ''Build references'')
       (io_bind (buildRefs w since (Some builder))
          (\<lambda>refs.
             if truthy_array refs
             then io_bind (log_all (map E_info refs)) (\<lambda>_. emit (E_setBuildRefs refs))
             else emit (E_warning (js ''No build refs found''))))"

text \<open>Lines 125 to 164.\<close>

definition main_bake :: "world \<Rightarrow> bake_context \<Rightarrow> unit io" where
  "main_bake w cx =
     io_bind (group_bake_definition w cx) (\<lambda>_.
     io_bind (execution_pass w cx) (\<lambda>err.
     io_bind (metadata_step w) (\<lambda>_.
     io_bind (group_build_references w (startedTime cx) (in_builder (cx_inputs cx))) (\<lambda>_.
     case err of
       Some e \<Rightarrow> io_throw e
     | None \<Rightarrow> io_return ()))))"

text \<open>The main phase, lines 23 to 165.\<close>

definition main :: "world \<Rightarrow> unit io" where
  "main w =
     io_bind (main_setup w)
       (\<lambda>cx. case cx of None \<Rightarrow> io_return () | Some c \<Rightarrow> main_bake w c)"

section \<open>The post phase\<close>

text \<open>
  The chain of lines 179 to 194, inside the \<^verbatim>\<open>try\<close> block: export, log line, upload,
  summary.
\<close>

definition summary_chain :: "post_world \<Rightarrow> post_state \<Rightarrow> unit io" where
  "summary_chain w st =
     io_bind (call (E_historyExport (st_buildRefs st)) (history_export w (st_buildRefs st)))
       (\<lambda>exportRes.
     io_bind (emit (E_info (js ''Build records exported to '' @ dockerbuildFilename exportRes
                             @ js '' ('' @ formatFileSize w (dockerbuildSize exportRes)
                             @ js '')'')))
       (\<lambda>_.
     let upload = \<lparr>up_filename = dockerbuildFilename exportRes,
                   up_mimeType = js ''application/gzip'', up_retentionDays = 90\<rparr>
     in
     io_bind (call (E_uploadArtifact upload) (uploadArtifact w upload))
       (\<lambda>uploadRes.
     let summary = \<lparr>su_exportRes = exportRes, su_uploadRes = uploadRes,
                    su_inputs = st_inputs st, su_bakeDefinition = st_bakeDefinition st\<rparr>
     in call (E_writeBuildSummary summary) (writeBuildSummary w summary))))"

text \<open>
  The group of lines 169 to 198. \<^verbatim>\<open>Util.parseBool\<close> is called outside the \<^verbatim>\<open>try\<close>
  block, on a variable that is set and not empty.
\<close>

definition group_summary :: "post_world \<Rightarrow> post_state \<Rightarrow> unit io" where
  "group_summary w st =
     group (js ''Generating build summary'')
       (io_bind
          (if truthy_opt_string (pw_no_summary w)
           then ([], outcome (parseBool w (case pw_no_summary w of Some v \<Rightarrow> v | None \<Rightarrow> [])))
           else io_return False)
          (\<lambda>disabled.
             if disabled then emit (E_info (js ''Summary disabled''))
             else if (case st_builder st of
                        Some b \<Rightarrow> driver b = Some (js ''cloud'')
                      | None \<Rightarrow> False)
             then emit (E_info (js ''Summary is not yet supported with Docker Build Cloud''))
             else try_catch (summary_chain w st) (\<lambda>e. emit (E_warning (message e)))))"

text \<open>The post phase, lines 167 to 205.\<close>

definition post :: "post_world \<Rightarrow> post_state \<Rightarrow> unit io" where
  "post w st =
     io_bind
       (if length (st_buildRefs st) > 0 then group_summary w st else io_return ())
       (\<lambda>_. if length (st_tmpDir st) > 0
             then group (js ''Removing temp folder '' @ st_tmpDir st)
                    (call (E_rmSync (st_tmpDir st) True) (rmSync w (st_tmpDir st)))
             else io_return ())"

section \<open>A sample run\<close>

text \<open>
  One target \<^verbatim>\<open>app\<close>, no builder named, no metadata written. The print pass exits with
  0; the execution pass exits with 1 and two lines on stderr. The history store holds
  two records of builder \<^verbatim>\<open>X\<close>, one older and one younger than the start of the run,
  and one record of builder \<^verbatim>\<open>Y\<close>.
\<close>

definition example_inputs :: inputs where
  "example_inputs =
     \<lparr>in_builder = [], in_files = [js ''docker-bake.hcl''], in_load = False,
      in_no_cache = False, in_set = [], in_provenance = [], in_push = False, in_sbom = [],
      in_source = [], in_targets = [js ''app''], in_workdir = js ''.'',
      in_github_token = js ''t''\<rparr>"

definition example_output :: exec_output where
  "example_output =
     \<lparr>exitCode = 1, stdout = [],
      stderr = js ''step 1\<newline>  ERROR: failed to solve \<newline>''\<rparr>"

definition example_world :: world where
  "example_world =
     \<lparr>now = 1000,
      process_env = [],
      getInputs = Inr example_inputs,
      stringify = (\<lambda>_ _. js ''{}''),
      printActionsRuntimeTokenACs = Inr (),
      docker_printVersion = Inr (),
      docker_printInfo = Inr (),
      docker_configFile = Inr None,
      docker_config_path = js ''config.json'',
      buildx_isAvailable = Inr True,
      context_tmpDir = Inr (js ''/tmp/x''),
      buildx_printVersion = Inr (),
      builder_inspect = (\<lambda>_. Inr \<lparr>name = Some (js ''X''), driver = Some (js ''docker'')\<rparr>),
      getDefinition = (\<lambda>_ _. Inr (Some (BakeDefinition (js ''{}'')))),
      getArgs = (\<lambda>_ _. Inr [js ''bake'', js ''app'']),
      getCommand = (\<lambda>as. Inr \<lparr>command = js ''docker'', args = js ''buildx'' # as\<rparr>),
      spawn = (\<lambda>_ as _ _.
                 Inr (if last as = js ''--print''
                      then \<lparr>exitCode = 0, stdout = js ''{}'', stderr = []\<rparr>
                      else example_output)),
      exit_failure = (\<lambda>_ _. js ''failed''),
      resolveMetadata = Inr None,
      resolveRefs = Inr None,
      refsDir = js ''refs'',
      history =
        [\<lparr>ref_id = js ''X/n/old'', rec_builder = js ''X'', created = 999\<rparr>,
         \<lparr>ref_id = js ''X/n/new'', rec_builder = js ''X'', created = 1001\<rparr>,
         \<lparr>ref_id = js ''Y/n/other'', rec_builder = js ''Y'', created = 1001\<rparr>]\<rparr>"

definition example_context :: bake_context where
  "example_context =
     \<lparr>startedTime = 1000, cx_inputs = example_inputs,
      buildCmd = \<lparr>command = js ''docker'', args = [js ''buildx'', js ''bake'', js ''app'']\<rparr>,
      buildEnv = [(js ''BUILDX_BAKE_GIT_AUTH_TOKEN'', js ''t'')]\<rparr>"

text \<open>A post phase in which the export fails, with a temp directory recorded.\<close>

definition example_post_world :: post_world where
  "example_post_world =
     \<lparr>pw_no_summary = None,
      parseBool = (\<lambda>_. Inr False),
      history_export = (\<lambda>_. Inl (js ''export failed'')),
      formatFileSize = (\<lambda>_. js ''1 KB''),
      uploadArtifact = (\<lambda>_. Inr (UploadRes (js ''1''))),
      writeBuildSummary = (\<lambda>_. Inr ()),
      rmSync = (\<lambda>_. Inr ())\<rparr>"

definition example_post_state :: post_state where
  "example_post_state =
     \<lparr>st_buildRefs = [js ''X/n/new''], st_tmpDir = js ''/tmp/x'', st_builder = None,
      st_inputs = None, st_bakeDefinition = None\<rparr>"

section \<open>Predicates on errors and events\<close>

text \<open>An exception that a collaborator threw, as opposed to one created in \<^verbatim>\<open>main.ts\<close>.\<close>

fun is_rejected :: "error \<Rightarrow> bool" where
  "is_rejected (Rejected m) = True"
| "is_rejected _ = False"

text \<open>The event of the execution pass (line 133).\<close>

fun is_getExecOutput :: "event \<Rightarrow> bool" where
  "is_getExecOutput (E_getExecOutput c as opts) = True"
| "is_getExecOutput _ = False"

section \<open>Properties of the regular expression\<close>

lemma lt_ws: "is_line_terminator c \<Longrightarrow> is_white_space c"
  by (auto simp: is_line_terminator_def is_white_space_def)

lemma first_success_None: "first_success f xs = None \<longleftrightarrow> (\<forall>x\<in>set xs. f x = None)"
  by (induction xs) (auto split: option.splits)

lemma first_success_Some: "first_success f xs = Some y \<Longrightarrow> \<exists>x\<in>set xs. f x = Some y"
  by (induction xs) (auto split: option.splits)

lemma set_greedy: "set (greedy p s) = {k. k \<le> length (takeWhile p s)}"
  by (auto simp: greedy_def)

lemma match_here_take: "match_here s = Some n \<Longrightarrow> take n s = s"
  unfolding match_here_def
  by (auto dest!: first_success_Some split: if_splits)

lemma takeWhile_all: "length (takeWhile p t) = length t \<longleftrightarrow> list_all p t"
  by (induction t) (auto)

lemma first_success_not_None:
  "first_success f xs \<noteq> None \<longleftrightarrow> (\<exists>x\<in>set xs. f x \<noteq> None)"
  by (auto simp: first_success_None)

lemma inner_iff:
  "first_success (\<lambda>j. if drop (k + j) s = [] then Some (k + j) else None)
       (greedy is_white_space (drop k s)) \<noteq> None
   \<longleftrightarrow> list_all is_white_space (drop k s)"
proof -
  let ?t = "drop k s"
  let ?n = "length (takeWhile is_white_space ?t)"
  have le: "?n \<le> length ?t"
    by (rule length_takeWhile_le)
  have "first_success (\<lambda>j. if drop (k + j) s = [] then Some (k + j) else None)
          (greedy is_white_space ?t) \<noteq> None
        \<longleftrightarrow> (\<exists>j \<in> set (greedy is_white_space ?t). drop (k + j) s = [])"
    by (simp only: first_success_not_None) (auto split: if_splits)
  also have "\<dots> \<longleftrightarrow> (\<exists>j. j \<le> ?n \<and> length s \<le> k + j)"
    by (simp only: set_greedy) auto
  also have "\<dots> \<longleftrightarrow> ?n = length ?t"
  proof
    assume "\<exists>j. j \<le> ?n \<and> length s \<le> k + j"
    then obtain j where "j \<le> ?n" "length s \<le> k + j" by blast
    with le show "?n = length ?t" by simp
  next
    assume "?n = length ?t"
    then have "length ?t \<le> ?n \<and> length s \<le> k + length ?t" by simp
    then show "\<exists>j. j \<le> ?n \<and> length s \<le> k + j" by blast
  qed
  also have "\<dots> \<longleftrightarrow> list_all is_white_space ?t"
    by (rule takeWhile_all)
  finally show ?thesis .
qed

lemma match_here_iff:
  "match_here s \<noteq> None \<longleftrightarrow>
     (\<exists>k. k \<le> length (takeWhile is_dot s) \<and> list_all is_white_space (drop k s))"
proof -
  have "match_here s \<noteq> None \<longleftrightarrow>
        (\<exists>k \<in> set (greedy is_dot s).
           first_success (\<lambda>j. if drop (k + j) s = [] then Some (k + j) else None)
             (greedy is_white_space (drop k s)) \<noteq> None)"
    unfolding match_here_def by (simp only: first_success_not_None)
  also have "\<dots> \<longleftrightarrow> (\<exists>k \<in> set (greedy is_dot s). list_all is_white_space (drop k s))"
    by (simp only: inner_iff)
  also have "\<dots> \<longleftrightarrow> (\<exists>k. k \<le> length (takeWhile is_dot s) \<and> list_all is_white_space (drop k s))"
    by (simp only: set_greedy) auto
  finally show ?thesis .
qed

lemma match_here_Nil: "match_here [] = Some 0"
  by (simp add: match_here_def greedy_def)

lemma regexp_match_suffix: "\<exists>i \<le> length s. regexp_match s = Some (drop i s)"
proof (induction s)
  case Nil
  show ?case by (simp add: match_here_Nil)
next
  case (Cons c cs)
  show ?case
  proof (cases "match_here (c # cs)")
    case None
    from Cons obtain i where "i \<le> length cs" "regexp_match cs = Some (drop i cs)"
      by blast
    with None show ?thesis
      by (intro exI [of _ "Suc i"]) simp
  next
    case (Some n)
    then have "take n (c # cs) = c # cs"
      by (rule match_here_take)
    with Some show ?thesis
      by (intro exI [of _ 0]) simp
  qed
qed

lemma regexp_match_never_null: "regexp_match s \<noteq> None"
  using regexp_match_suffix [of s] by auto

lemma js_lines_hd_tl:
  "\<exists>ls. js_lines s = takeWhile is_dot s # ls \<and>
        (list_all blank ls \<longleftrightarrow> list_all is_white_space (dropWhile is_dot s))"
proof (induction s)
  case Nil
  show ?case by simp
next
  case (Cons c cs)
  then obtain ls where ls: "js_lines cs = takeWhile is_dot cs # ls"
    "list_all blank ls \<longleftrightarrow> list_all is_white_space (dropWhile is_dot cs)"
    by blast
  show ?case
  proof (cases "is_line_terminator c")
    case True
    have "list_all is_white_space cs \<longleftrightarrow>
          blank (takeWhile is_dot cs) \<and> list_all is_white_space (dropWhile is_dot cs)"
      unfolding blank_def
      by (metis list_all_append takeWhile_dropWhile_id)
    moreover from True have "\<not> is_dot c" "is_white_space c"
      by (simp_all add: is_dot_def lt_ws)
    ultimately show ?thesis
      using True ls by simp
  next
    case False
    then have "is_dot c"
      by (simp add: is_dot_def)
    with False ls show ?thesis
      by simp
  qed
qed

lemma trim_append_blank:
  assumes "list_all is_white_space u"
  shows "js_trim (l @ u) = js_trim l"
proof (cases "list_all is_white_space l")
  case True
  with assms have "dropWhile is_white_space (l @ u) = []" "dropWhile is_white_space l = []"
    by (simp_all only: dropWhile_eq_Nil_conv list_all_iff set_append) auto
  then show ?thesis
    unfolding js_trim_def by (simp only:)
next
  case False
  then obtain x where x: "x \<in> set l" "\<not> is_white_space x"
    by (auto simp: list_all_iff)
  then have a: "dropWhile is_white_space (l @ u) = dropWhile is_white_space l @ u"
    by (rule dropWhile_append1)
  from assms have "dropWhile is_white_space (rev u @ rev (dropWhile is_white_space l))
        = dropWhile is_white_space (rev (dropWhile is_white_space l))"
    by (intro dropWhile_append2) (auto simp: list_all_iff)
  with a show ?thesis
    by (simp add: js_trim_def)
qed

lemma match_whole:
  assumes m: "match_here s \<noteq> None" and nb: "\<not> blank s"
  shows "js_trim s = js_trim (last_line s)"
proof -
  from m [unfolded match_here_iff]
  obtain k where k: "k \<le> length (takeWhile is_dot s)" "list_all is_white_space (drop k s)"
    by blast
  let ?l = "takeWhile is_dot s" and ?w = "dropWhile is_dot s"
  have s: "s = ?l @ ?w" by simp
  have "drop k s = drop k ?l @ ?w"
    using k(1) by (metis drop_append diff_is_0_eq drop0 s)
  with k(2) have w: "list_all is_white_space ?w"
    by simp
  from js_lines_hd_tl [of s] w obtain ls where ls: "js_lines s = ?l # ls" "list_all blank ls"
    by blast
  from nb w have nbl: "\<not> blank ?l"
    unfolding blank_def by (metis list_all_append s)
  from ls(2) have "filter (\<lambda>l. \<not> blank l) ls = []"
    by (auto simp: list_all_iff filter_empty_conv)
  with ls nbl have "last_line s = ?l"
    by (simp add: last_line_def)
  moreover have "js_trim s = js_trim ?l"
    using trim_append_blank [OF w, of ?l] by simp
  ultimately show ?thesis by simp
qed

lemma no_match_step:
  assumes m: "match_here (c # cs) = None" 
  shows "\<not> blank cs \<and> last_line (c # cs) = last_line cs"
proof -
  from m have none: "\<And>k. k \<le> length (takeWhile is_dot (c # cs)) \<Longrightarrow>
       \<not> list_all is_white_space (drop k (c # cs))"
    using match_here_iff [of "c # cs"] by blast
  from none [of 0] have nb: "\<not> list_all is_white_space (c # cs)" by simp
  show ?thesis
  proof (cases "is_line_terminator c")
    case True
    with nb have "\<not> blank cs" by (simp add: blank_def lt_ws)
    moreover from True have "last_line (c # cs) = last_line cs"
      by (simp add: last_line_def blank_def)
    ultimately show ?thesis by simp
  next
    case False
    then have d: "is_dot c" by (simp add: is_dot_def)
    from js_lines_hd_tl [of cs] obtain ls where ls: "js_lines cs = takeWhile is_dot cs # ls"
      "list_all blank ls \<longleftrightarrow> list_all is_white_space (dropWhile is_dot cs)"
      by blast
    have "\<not> list_all is_white_space (drop (Suc (length (takeWhile is_dot cs))) (c # cs))"
      using d by (intro none) simp
    then have w: "\<not> list_all is_white_space (dropWhile is_dot cs)"
      by (simp add: dropWhile_eq_drop)
    then have "\<not> blank cs"
      unfolding blank_def by (metis list_all_append takeWhile_dropWhile_id)
    moreover from w ls have "filter (\<lambda>l. \<not> blank l) ls \<noteq> []"
      by (auto simp: list_all_iff filter_empty_conv)
    then have "last_line (c # cs) = last_line cs"
      using False ls(1) by (simp add: last_line_def)
    ultimately show ?thesis by simp
  qed
qed

lemma extracted_last_line:
  "\<not> blank s \<Longrightarrow> extracted s = js_trim (last_line s)"
proof (induction s)
  case Nil
  then show ?case by (simp add: blank_def)
next
  case (Cons c cs)
  show ?case
  proof (cases "match_here (c # cs)")
    case None
    from no_match_step [OF None] Cons.IH
    have "extracted cs = js_trim (last_line (c # cs))" by simp
    with None show ?thesis by (simp add: extracted_def)
  next
    case (Some n)
    then have "take n (c # cs) = c # cs" by (rule match_here_take)
    with Some have "extracted (c # cs) = js_trim (c # cs)"
      by (simp add: extracted_def)
    also have "\<dots> = js_trim (last_line (c # cs))"
      using Some Cons.prems by (intro match_whole) simp_all
    finally show ?thesis .
  qed
qed

lemma blank_lines: "list_all blank (js_lines s) = blank s"
proof (induction s)
  case Nil
  show ?case by (simp add: blank_def)
next
  case (Cons c cs)
  obtain l ls where l: "js_lines cs = l # ls"
    using js_lines_hd_tl [of cs] by blast
  show ?case
  proof (cases "is_line_terminator c")
    case True
    with Cons show ?thesis by (simp add: blank_def lt_ws)
  next
    case False
    with Cons l show ?thesis by (auto simp: blank_def)
  qed
qed

lemma nonblank_line_exists: "\<not> blank s \<Longrightarrow> filter (\<lambda>l. \<not> blank l) (js_lines s) \<noteq> []"
  using blank_lines [of s] by (auto simp: filter_empty_conv list_all_iff)

section \<open>Properties of the effect model\<close>

lemma io_bind_Inl: "snd m = Inl e \<Longrightarrow> io_bind m f = (fst m, Inl e)"
  by (cases m) (simp add: io_bind_def)

lemma io_bind_Inr: "snd m = Inr x \<Longrightarrow> io_bind m f = (fst m @ fst (f x), snd (f x))"
  by (cases m) (simp add: io_bind_def split: prod.splits)

lemma io_bind_pair_Inl: "io_bind (t, Inl e) f = (t, Inl e)"
  by (simp add: io_bind_def)

lemma io_bind_pair_Inr: "io_bind (t, Inr x) f = (t @ fst (f x), snd (f x))"
  by (simp add: io_bind_def split: prod.splits)

lemma try_catch_pair_Inl: "try_catch (t, Inl e) h = (t @ fst (h e), snd (h e))"
  by (simp add: try_catch_def split: prod.splits)

lemma try_catch_pair_Inr: "try_catch (t, Inr x) h = (t, Inr x)"
  by (simp add: try_catch_def)

lemma group_pair: "group title (t, r) = (E_startGroup title # t @ [E_endGroup], r)"
  by (simp add: group_def)

lemma call_Inl: "call ev (Inl m) = ([ev], Inl (Rejected m))"
  by (simp add: call_def outcome_def)

lemma call_Inr: "call ev (Inr x) = ([ev], Inr x)"
  by (simp add: call_def outcome_def)

lemmas io_eval = io_bind_pair_Inl io_bind_pair_Inr try_catch_pair_Inl try_catch_pair_Inr
  group_pair call_Inl call_Inr emit_def io_return_def io_throw_def log_all_def

lemma fst_group: "fst (group title body) = E_startGroup title # fst body @ [E_endGroup]"
  by (cases body) (simp add: group_def)

lemma snd_group: "snd (group title body) = snd body"
  by (cases body) (simp add: group_def)

lemma io_bind_cases:
  obtains (throws) e where "snd m = Inl e" "io_bind m f = (fst m, Inl e)"
  | (continues) x where "snd m = Inr x" "io_bind m f = (fst m @ fst (f x), snd (f x))"
proof (cases "snd m")
  case (Inl e)
  then show ?thesis using io_bind_Inl [of m e f] throws by blast
next
  case (Inr x)
  then show ?thesis using io_bind_Inr [of m x f] continues by blast
qed

lemma call_rejected: "snd (call ev answer) = Inl e \<Longrightarrow> is_rejected e"
  by (cases answer) (auto simp: call_def outcome_def)

lemma io_bind_rejected:
  assumes "snd (io_bind m f) = Inl e"
    and "\<And>e. snd m = Inl e \<Longrightarrow> is_rejected e"
    and "\<And>x e. snd m = Inr x \<Longrightarrow> snd (f x) = Inl e \<Longrightarrow> is_rejected e"
  shows "is_rejected e"
  using assms by (cases rule: io_bind_cases [of m f]) auto

lemma Exec_exec_rejected: "snd (Exec_exec w c as opts) = Inl e \<Longrightarrow> is_rejected e"
  unfolding Exec_exec_def
  by (erule io_bind_rejected) (auto dest: call_rejected simp: io_throw_def io_return_def split: if_splits)

lemma Exec_getExecOutput_rejected: "snd (Exec_getExecOutput w c as opts) = Inl e \<Longrightarrow> is_rejected e"
  unfolding Exec_getExecOutput_def
  by (erule io_bind_rejected) (auto dest: call_rejected simp: io_throw_def io_return_def split: if_splits)

lemma group_bake_definition_rejected:
  "snd (group_bake_definition w cx) = Inl e \<Longrightarrow> is_rejected e"
  unfolding group_bake_definition_def snd_group
  by (erule io_bind_rejected) (auto dest: Exec_exec_rejected simp: io_return_def)

lemma execution_pass_rejected:
  "snd (execution_pass w cx) = Inl e \<Longrightarrow> is_rejected e"
  unfolding execution_pass_def
  by (erule io_bind_rejected) (auto dest: Exec_getExecOutput_rejected simp: io_return_def)

lemma metadata_step_rejected:
  "snd (metadata_step w) = Inl e \<Longrightarrow> is_rejected e"
  unfolding metadata_step_def
  by (erule io_bind_rejected)
     (auto dest: call_rejected simp: io_return_def snd_group io_eval split: option.splits)

lemma own_keys_loop:
  "set ks \<subseteq> fst ` set res \<Longrightarrow>
   foldl (\<lambda>refs ref. if hasOwnProperty res ref then refs @ [ref] else refs) acc ks = acc @ ks"
proof (induction ks arbitrary: acc)
  case Nil
  show ?case by simp
next
  case (Cons k ks)
  then have "hasOwnProperty res k"
    by (auto simp: hasOwnProperty_def map_of_eq_None_iff)
  with Cons show ?case by simp
qed

lemma own_keys:
  "foldl (\<lambda>refs ref. if hasOwnProperty res ref then refs @ [ref] else refs) [] (for_in res)
   = map fst res"
  using own_keys_loop [of "for_in res" res "[]"] by (simp add: for_in_def)

lemma keys_obj_set: "fst ` set (obj_set k v kvs) = insert k (fst ` set kvs)"
proof (induction kvs)
  case Nil
  show ?case by simp
next
  case (Cons a kvs)
  obtain k' v' where a: "a = (k', v')" by (cases a)
  show ?case
  proof (cases "k' = k")
    case True
    with a show ?thesis by auto
  next
    case False
    with a Cons show ?thesis by auto
  qed
qed

lemma keys_insert_all:
  "fst ` set (foldl (\<lambda>refs r. obj_set (ref_id r) r refs) acc rs) = fst ` set acc \<union> ref_id ` set rs"
  by (induction rs arbitrary: acc) (auto simp: keys_obj_set)

lemma keys_Buildx_refs:
  "fst ` set (Buildx_refs store opts) = ref_id ` {r \<in> set store. record_matches opts r}"
  unfolding Buildx_refs_def by (simp add: keys_insert_all)

lemma buildRefs_meta:
  "resolveRefs w = Inr (Some r) \<Longrightarrow> buildRefs w since builder = ([E_resolveRefs], Inr r)"
  by (simp add: buildRefs_def io_eval truthy_opt_array_def truthy_array_def)

lemma buildRefs_meta_rejects:
  "resolveRefs w = Inl m \<Longrightarrow> buildRefs w since builder = ([E_resolveRefs], Inl (Rejected m))"
  by (simp add: buildRefs_def io_eval)

lemma buildRefs_named:
  "resolveRefs w = Inr None \<Longrightarrow> truthy_opt_string builder \<Longrightarrow>
   buildRefs w since builder =
     ([E_resolveRefs,
       E_buildxRefs \<lparr>ro_dir = refsDir w, ro_builderName = builder, ro_since = since\<rparr>],
      Inr (map fst (Buildx_refs (history w)
             \<lparr>ro_dir = refsDir w, ro_builderName = builder, ro_since = since\<rparr>)))"
  by (simp add: buildRefs_def io_eval truthy_opt_array_def Let_def own_keys)

lemma buildRefs_default:
  "resolveRefs w = Inr None \<Longrightarrow> \<not> truthy_opt_string builder \<Longrightarrow>
   builder_inspect w None = Inr (b :: builder_info) \<Longrightarrow>
   buildRefs w since builder =
     ([E_resolveRefs, E_builderInspect None,
       E_buildxRefs \<lparr>ro_dir = refsDir w, ro_builderName = name b, ro_since = since\<rparr>],
      Inr (map fst (Buildx_refs (history w)
             \<lparr>ro_dir = refsDir w, ro_builderName = name b, ro_since = since\<rparr>)))"
  by (simp add: buildRefs_def io_eval truthy_opt_array_def Let_def own_keys)

lemma buildRefs_default_rejects:
  "resolveRefs w = Inr None \<Longrightarrow> \<not> truthy_opt_string builder \<Longrightarrow>
   builder_inspect w None = Inl m \<Longrightarrow>
   buildRefs w since builder = ([E_resolveRefs, E_builderInspect None], Inl (Rejected m))"
  by (simp add: buildRefs_def io_eval truthy_opt_array_def Let_def)

lemma buildRefs_cases:
  obtains (meta) r where "resolveRefs w = Inr (Some r)"
      "buildRefs w since builder = ([E_resolveRefs], Inr r)"
  | (meta_rejects) m where "buildRefs w since builder = ([E_resolveRefs], Inl (Rejected m))"
  | (inspect_rejects) m where
      "buildRefs w since builder = ([E_resolveRefs, E_builderInspect None], Inl (Rejected m))"
  | (named) "resolveRefs w = Inr None"
      "buildRefs w since builder =
        ([E_resolveRefs,
          E_buildxRefs \<lparr>ro_dir = refsDir w, ro_builderName = builder, ro_since = since\<rparr>],
         Inr (map fst (Buildx_refs (history w)
                \<lparr>ro_dir = refsDir w, ro_builderName = builder, ro_since = since\<rparr>)))"
  | (default) b :: builder_info where "resolveRefs w = Inr None"
      "buildRefs w since builder =
        ([E_resolveRefs, E_builderInspect None,
          E_buildxRefs \<lparr>ro_dir = refsDir w, ro_builderName = name b, ro_since = since\<rparr>],
         Inr (map fst (Buildx_refs (history w)
                \<lparr>ro_dir = refsDir w, ro_builderName = name b, ro_since = since\<rparr>)))"
proof (cases "resolveRefs w")
  case (Inl m)
  then show ?thesis by (rule meta_rejects [OF buildRefs_meta_rejects])
next
  case (Inr mr)
  show ?thesis
  proof (cases mr)
    case (Some r)
    with Inr have h: "resolveRefs w = Inr (Some r)" by simp
    show ?thesis by (rule meta [OF h buildRefs_meta [OF h]])
  next
    case None
    with Inr have n: "resolveRefs w = Inr None" by simp
    show ?thesis
    proof (cases "truthy_opt_string builder")
      case True
      show ?thesis by (rule named [OF n buildRefs_named [OF n True]])
    next
      case False
      show ?thesis
      proof (cases "builder_inspect w None")
        case (Inl m)
        show ?thesis by (rule inspect_rejects [OF buildRefs_default_rejects [OF n False Inl]])
      next
        case (Inr b)
        show ?thesis by (rule default [OF n buildRefs_default [OF n False Inr]])
      qed
    qed
  qed
qed

lemma buildRefs_rejected:
  assumes "snd (buildRefs w since builder) = Inl e"
  shows "is_rejected e"
proof -
  have "snd (buildRefs w since builder) = Inl e \<longrightarrow> is_rejected e"
    by (cases rule: buildRefs_cases [of w since builder]) auto
  with assms show ?thesis by simp
qed

lemma group_build_references_rejected:
  "snd (group_build_references w since builder) = Inl e \<Longrightarrow> is_rejected e"
  unfolding group_build_references_def snd_group
  by (erule io_bind_rejected)
     (auto dest: buildRefs_rejected simp: io_eval truthy_array_def)

lemma snd_group_build_references:
  "snd (buildRefs w since (Some builder)) = Inr refs \<Longrightarrow>
   group_build_references w since builder =
     (E_startGroup (js ''Build references'') # fst (buildRefs w since (Some builder)) @
        map E_info refs @ [E_setBuildRefs refs, E_endGroup], Inr ())"
  unfolding group_build_references_def
  by (cases "buildRefs w since (Some builder)") (simp add: io_eval truthy_array_def)

lemma main_bake_BakeFailedD:
  assumes "snd (main_bake w cx) = Inl (BakeFailed m)"
  shows "snd (group_bake_definition w cx) = Inr () \<and>
         snd (execution_pass w cx) = Inr (Some (BakeFailed m)) \<and>
         snd (metadata_step w) = Inr () \<and>
         snd (group_build_references w (startedTime cx) (in_builder (cx_inputs cx))) = Inr () \<and>
         fst (main_bake w cx) = fst (group_bake_definition w cx) @ fst (execution_pass w cx) @
           fst (metadata_step w) @ fst (group_build_references w (startedTime cx) (in_builder (cx_inputs cx)))"
proof -
  let ?P = "group_bake_definition w cx" and ?X = "execution_pass w cx"
  let ?M = "metadata_step w"
  let ?B = "group_build_references w (startedTime cx) (in_builder (cx_inputs cx))"
  have nb: "\<And>e. is_rejected e \<Longrightarrow> e \<noteq> BakeFailed m" by auto
  have P: "snd ?P = Inr ()"
  proof (cases "snd ?P")
    case (Inl e)
    then have "snd (main_bake w cx) = Inl e"
      by (simp add: main_bake_def io_bind_Inl)
    with assms nb [OF group_bake_definition_rejected [OF Inl]] show ?thesis by simp
  qed simp
  obtain err where X: "snd ?X = Inr err"
  proof (cases "snd ?X")
    case (Inl e)
    with P have "snd (main_bake w cx) = Inl e"
      by (simp add: main_bake_def io_bind_Inl io_bind_Inr)
    with assms nb [OF execution_pass_rejected [OF Inl]] show ?thesis by simp
  qed simp
  have M: "snd ?M = Inr ()"
  proof (cases "snd ?M")
    case (Inl e)
    with P X have "snd (main_bake w cx) = Inl e"
      by (simp add: main_bake_def io_bind_Inl io_bind_Inr)
    with assms nb [OF metadata_step_rejected [OF Inl]] show ?thesis by simp
  qed simp
  have B: "snd ?B = Inr ()"
  proof (cases "snd ?B")
    case (Inl e)
    with P X M have "snd (main_bake w cx) = Inl e"
      by (simp add: main_bake_def io_bind_Inl io_bind_Inr)
    with assms nb [OF group_build_references_rejected [OF Inl]] show ?thesis by simp
  qed simp
  from P X M B have eq: "main_bake w cx =
      (fst ?P @ fst ?X @ fst ?M @ fst ?B, case err of Some e \<Rightarrow> Inl e | None \<Rightarrow> Inr ())"
    by (cases err) (simp_all add: main_bake_def io_bind_Inr io_eval)
  with assms have "err = Some (BakeFailed m)"
    by (cases err) simp_all
  with P X M B eq show ?thesis by simp
qed


lemma io_bind_InrD:
  assumes "snd (io_bind m f) = Inr y"
  shows "\<exists>x. snd m = Inr x \<and> snd (f x) = Inr y"
  using assms by (cases rule: io_bind_cases [of m f]) auto

lemma fst_io_bind_prefix: "\<exists>rest. fst (io_bind m f) = fst m @ rest"
  by (cases rule: io_bind_cases [of m f]) auto

lemma main_setup_started:
  "snd (main_setup w) = Inr (Some cx) \<Longrightarrow> startedTime cx = now w"
  by (auto simp: main_setup_def Let_def io_throw_def io_return_def
      dest!: io_bind_InrD split: if_splits option.splits)

lemma main_setup_first: "\<exists>t. fst (main_setup w) = E_newDate # t"
  using fst_io_bind_prefix [of "emit E_newDate"]
  by (simp add: main_setup_def emit_def)

lemma main_after_setup:
  "snd (main_setup w) = Inr (Some cx) \<Longrightarrow>
   main w = (fst (main_setup w) @ fst (main_bake w cx), snd (main_bake w cx))"
  by (simp add: main_def io_bind_Inr)

lemma list_all_io_bind:
  "list_all P (fst m) \<Longrightarrow> (\<And>x. list_all P (fst (f x))) \<Longrightarrow> list_all P (fst (io_bind m f))"
  by (cases rule: io_bind_cases [of m f]) auto

lemma list_all_try_catch:
  "list_all P (fst m) \<Longrightarrow> (\<And>e. list_all P (fst (h e))) \<Longrightarrow> list_all P (fst (try_catch m h))"
proof (cases m)
  case (Pair t r)
  assume a: "list_all P (fst m)" and b: "\<And>e. list_all P (fst (h e))"
  show ?thesis
  proof (cases r)
    case (Inl e)
    with Pair a b [of e] show ?thesis by (simp add: try_catch_pair_Inl)
  next
    case (Inr x)
    with Pair a show ?thesis by (simp add: try_catch_pair_Inr)
  qed
qed

lemma list_all_group:
  "P (E_startGroup title) \<Longrightarrow> P E_endGroup \<Longrightarrow> list_all P (fst body) \<Longrightarrow>
   list_all P (fst (group title body))"
  by (simp add: fst_group)

lemma list_all_call: "P ev \<Longrightarrow> list_all P (fst (call ev a))"
  by (simp add: call_def)

lemma list_all_emit: "P ev \<Longrightarrow> list_all P (fst (emit ev))"
  by (simp add: emit_def)

lemma list_all_return: "list_all P (fst (io_return x))"
  by (simp add: io_return_def)

lemma list_all_throw: "list_all P (fst (io_throw x))"
  by (simp add: io_throw_def)

lemmas list_all_io = list_all_io_bind list_all_try_catch list_all_group list_all_call
  list_all_emit list_all_return list_all_throw

lemma proxy_lines_no_execution:
  "list_all (\<lambda>ev. \<not> is_getExecOutput ev) (fst (log_all (proxy_lines ps)))"
  by (auto simp: log_all_def proxy_lines_def list_all_iff)

lemma group_proxy_no_execution:
  "list_all (\<lambda>ev. \<not> is_getExecOutput ev) (fst (group_proxy w))"
  unfolding group_proxy_def
  apply (intro list_all_io)
        apply simp_all
  apply (auto intro!: list_all_io proxy_lines_no_execution split: option.splits)
  done

lemma groups_no_execution:
  "list_all (\<lambda>ev. \<not> is_getExecOutput ev) (fst (group_runtime_token w))"
  "list_all (\<lambda>ev. \<not> is_getExecOutput ev) (fst (group_docker_info w))"
  "list_all (\<lambda>ev. \<not> is_getExecOutput ev) (fst (group_builder_info w inp))"
  "list_all (\<lambda>ev. \<not> is_getExecOutput ev) (fst (group_parse_definition w inp tok))"
  unfolding group_runtime_token_def group_docker_info_def group_builder_info_def
    group_parse_definition_def Let_def
  by (intro list_all_io; simp)+

lemma main_setup_no_execution:
  "list_all (\<lambda>ev. \<not> is_getExecOutput ev) (fst (main_setup w))"
  unfolding main_setup_def Let_def
  apply (intro list_all_io groups_no_execution group_proxy_no_execution; simp?)
  apply (intro conjI impI list_all_io groups_no_execution; simp?)
  apply (simp split: option.split)
  apply (intro conjI impI allI list_all_io groups_no_execution; simp?)
  done


lemma classify_BakeFailed: "classify res = Some e \<Longrightarrow> \<exists>m. e = BakeFailed m"
  by (auto simp: classify_def split: if_splits)

lemma fst_execution_pass:
  "\<exists>t. fst (execution_pass w cx) =
     E_getExecOutput (command (buildCmd cx)) (args (buildCmd cx))
       \<lparr>eo_cwd = in_workdir (cx_inputs cx), eo_env = buildEnv cx, eo_ignoreReturnCode = True\<rparr> # t"
  unfolding execution_pass_def Exec_getExecOutput_def
  by (cases "spawn w (command (buildCmd cx)) (args (buildCmd cx)) (in_workdir (cx_inputs cx)) (buildEnv cx)")
     (simp_all add: io_eval)

lemma execution_pass_spawned:
  assumes "spawn w (command (buildCmd cx)) (args (buildCmd cx)) (in_workdir (cx_inputs cx))
             (buildEnv cx) = Inr res"
  shows "execution_pass w cx =
     ([E_getExecOutput (command (buildCmd cx)) (args (buildCmd cx))
         \<lparr>eo_cwd = in_workdir (cx_inputs cx), eo_env = buildEnv cx, eo_ignoreReturnCode = True\<rparr>],
      Inr (classify res))"
  using assms by (simp add: execution_pass_def Exec_getExecOutput_def io_eval)

lemma execution_pass_BakeFailed:
  assumes "snd (execution_pass w cx) = Inr (Some e)"
  shows "\<exists>m. e = BakeFailed m"
proof (cases "spawn w (command (buildCmd cx)) (args (buildCmd cx)) (in_workdir (cx_inputs cx)) (buildEnv cx)")
  case (Inl m)
  then have "snd (execution_pass w cx) = Inl (Rejected m)"
    by (simp add: execution_pass_def Exec_getExecOutput_def io_eval)
  with assms show ?thesis by simp
next
  case (Inr res)
  from execution_pass_spawned [OF Inr] assms have "classify res = Some e" by simp
  then show ?thesis by (rule classify_BakeFailed)
qed

lemma fst_metadata_step: "\<exists>t. fst (metadata_step w) = E_resolveMetadata # t"
  using fst_io_bind_prefix [of "call E_resolveMetadata (resolveMetadata w)"]
  by (simp add: metadata_step_def call_def)

lemma fst_buildRefs: "\<exists>t. fst (buildRefs w since builder) = E_resolveRefs # t"
  by (cases rule: buildRefs_cases [of w since builder]) auto

lemma fst_group_build_references:
  "\<exists>t. fst (group_build_references w since builder) =
     E_startGroup (js ''Build references'') # E_resolveRefs # t"
proof -
  obtain t where t: "fst (buildRefs w since (Some builder)) = E_resolveRefs # t"
    using fst_buildRefs by blast
  obtain rest where "fst (io_bind (buildRefs w since (Some builder))
          (\<lambda>refs. if truthy_array refs
             then io_bind (log_all (map E_info refs)) (\<lambda>_. emit (E_setBuildRefs refs))
             else emit (E_warning (js ''No build refs found'')))) =
        fst (buildRefs w since (Some builder)) @ rest"
    using fst_io_bind_prefix by blast
  with t show ?thesis
    by (simp add: group_build_references_def fst_group)
qed

lemma main_bake_fatal:
  assumes P: "snd (group_bake_definition w cx) = Inr ()"
    and X: "snd (execution_pass w cx) = Inr (Some e)"
  shows "main_bake w cx =
     (let M = metadata_step w;
          B = group_build_references w (startedTime cx) (in_builder (cx_inputs cx));
          t = fst (group_bake_definition w cx) @ fst (execution_pass w cx) @ fst M
      in case snd M of
           Inl e' \<Rightarrow> (t, Inl e')
         | Inr _ \<Rightarrow> (case snd B of Inl e' \<Rightarrow> (t @ fst B, Inl e') | Inr _ \<Rightarrow> (t @ fst B, Inl e)))"
  using P X
  by (simp add: main_bake_def io_bind_Inr io_bind_Inl io_eval Let_def split: sum.splits)

section \<open>The claims\<close>

subsection \<open>Classification of the execution pass\<close>

text \<open>
  C1. For an execution pass whose subprocess ran and returned \<open>res\<close>, the pass itself
  raises nothing and leaves \<^verbatim>\<open>err\<close> set to \<open>classify res\<close>; \<^verbatim>\<open>err\<close> is set if and only
  if the exit code is non-zero and the captured stderr is not empty. So a non-zero exit
  with empty stderr and a zero exit with non-empty stderr both leave \<^verbatim>\<open>err\<close> unset, and
  the rest of the main phase ends in the bake failure only under that condition.
\<close>

theorem execution_pass_fatal_iff:
  assumes "spawn w (command (buildCmd cx)) (args (buildCmd cx)) (in_workdir (cx_inputs cx))
             (buildEnv cx) = Inr res"
  shows "snd (execution_pass w cx) = Inr (classify res) \<and>
         ((classify res \<noteq> None) = (exitCode res \<noteq> 0 \<and> stderr res \<noteq> [])) \<and>
         (exitCode res \<noteq> 0 \<and> stderr res = [] \<longrightarrow> snd (execution_pass w cx) = Inr None) \<and>
         (exitCode res = 0 \<and> stderr res \<noteq> [] \<longrightarrow> snd (execution_pass w cx) = Inr None) \<and>
         ((\<exists>m. snd (main_bake w cx) = Inl (BakeFailed m)) \<longrightarrow>
            exitCode res \<noteq> 0 \<and> stderr res \<noteq> [])"
proof -
  have pass: "snd (execution_pass w cx) = Inr (classify res)"
    using execution_pass_spawned [OF assms] by simp
  have iff: "(classify res \<noteq> None) = (exitCode res \<noteq> 0 \<and> stderr res \<noteq> [])"
    by (auto simp: classify_def)
  have "exitCode res \<noteq> 0 \<and> stderr res \<noteq> []" if "snd (main_bake w cx) = Inl (BakeFailed m)" for m
  proof -
    from main_bake_BakeFailedD [OF that] pass have "classify res = Some (BakeFailed m)"
      by simp
    with iff show ?thesis by simp
  qed
  with pass iff show ?thesis by auto
qed

theorem execution_pass_fatal_iff_witness:
  "spawn example_world (command (buildCmd example_context)) (args (buildCmd example_context))
     (in_workdir (cx_inputs example_context)) (buildEnv example_context) = Inr example_output
   \<and> snd (execution_pass example_world example_context) = Inr (classify example_output)
   \<and> classify example_output \<noteq> None
   \<and> exitCode example_output \<noteq> 0 \<and> stderr example_output \<noteq> []"
proof -
  have h: "spawn example_world (command (buildCmd example_context))
      (args (buildCmd example_context)) (in_workdir (cx_inputs example_context))
      (buildEnv example_context) = Inr example_output"
    by (simp add: example_world_def example_context_def js_def)
  have c: "exitCode example_output \<noteq> 0 \<and> stderr example_output \<noteq> []"
    by (simp add: example_output_def js_def)
  from execution_pass_fatal_iff [OF h] c
  have "snd (execution_pass example_world example_context) = Inr (classify example_output)
        \<and> classify example_output \<noteq> None"
    by blast
  with h c show ?thesis by blast
qed

subsection \<open>The deferred error\<close>

text \<open>
  C2. When the main phase has reached line 125, the print pass has succeeded and the
  execution pass has set \<^verbatim>\<open>err\<close> to \<open>e\<close>, nothing is raised at that point: the next event
  is the call that resolves the metadata, and, if that step completes, the build
  references group follows with its call that resolves the references. The main phase
  ends with \<open>e\<close> exactly when both steps have completed, and then nothing else happens
  after them.
\<close>

theorem fatal_error_is_deferred:
  assumes S: "snd (main_setup w) = Inr (Some cx)"
    and P: "snd (group_bake_definition w cx) = Inr ()"
    and X: "snd (execution_pass w cx) = Inr (Some e)"
  shows "(\<exists>rest. fst (main w) =
            fst (main_setup w) @ fst (group_bake_definition w cx) @ fst (execution_pass w cx) @
            E_resolveMetadata # rest) \<and>
         (snd (metadata_step w) = Inr () \<longrightarrow>
            (\<exists>rest. fst (main w) =
               fst (main_setup w) @ fst (group_bake_definition w cx) @
               fst (execution_pass w cx) @ fst (metadata_step w) @
               E_startGroup (js ''Build references'') # E_resolveRefs # rest)) \<and>
         ((snd (main w) = Inl e) =
            (snd (metadata_step w) = Inr () \<and>
             snd (group_build_references w (startedTime cx) (in_builder (cx_inputs cx))) = Inr ())) \<and>
         (snd (main w) = Inl e \<longrightarrow>
            fst (main w) =
              fst (main_setup w) @ fst (group_bake_definition w cx) @ fst (execution_pass w cx) @
              fst (metadata_step w) @
              fst (group_build_references w (startedTime cx) (in_builder (cx_inputs cx))))"
proof -
  let ?M = "metadata_step w"
  let ?B = "group_build_references w (startedTime cx) (in_builder (cx_inputs cx))"
  let ?pre = "fst (main_setup w) @ fst (group_bake_definition w cx) @ fst (execution_pass w cx)"
  note main = main_after_setup [OF S]
  note bake = main_bake_fatal [OF P X]
  obtain m where e: "e = BakeFailed m"
    using execution_pass_BakeFailed [OF X] by blast
  obtain tm where tm: "fst ?M = E_resolveMetadata # tm"
    using fst_metadata_step by blast
  obtain tb where tb: "fst ?B = E_startGroup (js ''Build references'') # E_resolveRefs # tb"
    using fst_group_build_references by blast
  show ?thesis
  proof (cases "snd ?M")
    case (Inl e')
    then have "is_rejected e'" by (rule metadata_step_rejected)
    with e have "e' \<noteq> e" by auto
    with Inl main bake tm show ?thesis
      by (simp add: Let_def)
  next
    case M: (Inr u)
    show ?thesis
    proof (cases "snd ?B")
      case (Inl e')
      then have "is_rejected e'" by (rule group_build_references_rejected)
      with e have "e' \<noteq> e" by auto
      with Inl M main bake tm tb show ?thesis
        by (simp add: Let_def)
    next
      case (Inr u')
      with M main bake tm tb show ?thesis
        by (simp add: Let_def)
    qed
  qed
qed

theorem fatal_error_is_deferred_witness:
  "snd (main_setup example_world) = Inr (Some example_context)
   \<and> snd (group_bake_definition example_world example_context) = Inr ()
   \<and> snd (execution_pass example_world example_context) =
       Inr (Some (BakeFailed (js ''buildx bake failed with: ERROR: failed to solve'')))
   \<and> snd (main example_world) =
       Inl (BakeFailed (js ''buildx bake failed with: ERROR: failed to solve''))
   \<and> fst (main example_world) =
       fst (main_setup example_world) @ fst (group_bake_definition example_world example_context) @
       fst (execution_pass example_world example_context) @ fst (metadata_step example_world) @
       fst (group_build_references example_world (startedTime example_context)
              (in_builder (cx_inputs example_context)))"
proof -
  let ?e = "BakeFailed (js ''buildx bake failed with: ERROR: failed to solve'')"
  have S: "snd (main_setup example_world) = Inr (Some example_context)"
    by code_simp
  have P: "snd (group_bake_definition example_world example_context) = Inr ()"
    by code_simp
  have X: "snd (execution_pass example_world example_context) = Inr (Some ?e)"
    by code_simp
  have M: "snd (metadata_step example_world) = Inr ()"
    by code_simp
  have B: "snd (group_build_references example_world (startedTime example_context)
              (in_builder (cx_inputs example_context))) = Inr ()"
    by code_simp
  from fatal_error_is_deferred [OF S P X] M B
  have "snd (main example_world) = Inl ?e \<and>
        fst (main example_world) =
          fst (main_setup example_world) @ fst (group_bake_definition example_world example_context) @
          fst (execution_pass example_world example_context) @ fst (metadata_step example_world) @
          fst (group_build_references example_world (startedTime example_context)
                 (in_builder (cx_inputs example_context)))"
    by blast
  with S P X show ?thesis by blast
qed

subsection \<open>The message of the failure\<close>

text \<open>
  C3, as the specification words it, does not hold. For the stderr \<^verbatim>\<open>a\<close>, line feed,
  two spaces, \<^verbatim>\<open>b\<close> the message ends in \<^verbatim>\<open>b\<close>, while the last non-empty line with its
  trailing white space removed is two spaces and \<^verbatim>\<open>b\<close>. For a stderr of one space the
  message ends in the empty string and not in \<^verbatim>\<open>unknown error\<close>.
\<close>

theorem failure_message_counterexample:
  "classify \<lparr>exitCode = 1, stdout = [], stderr = js ''a\<newline>  b''\<rparr> =
     Some (BakeFailed (js ''buildx bake failed with: b''))
   \<and> spec_extracted (js ''a\<newline>  b'') = js ''  b''
   \<and> js ''b'' \<noteq> js ''  b''
   \<and> classify \<lparr>exitCode = 1, stdout = [], stderr = js '' ''\<rparr> =
       Some (BakeFailed (js ''buildx bake failed with: ''))
   \<and> spec_extracted (js '' '') = js ''unknown error''
   \<and> [] \<noteq> js ''unknown error''"
  by code_simp

text \<open>
  C3, amended. When the execution pass is declared failed and its stderr holds a code
  unit that is not white space, stderr has a line that is not blank, and the message
  of the error is \<^verbatim>\<open>buildx bake failed with: \<close> followed by the last such line with the
  white space at both of its ends removed. Lines end at LF, CR, LS and PS.
\<close>

theorem failure_message_last_line:
  assumes "classify res = Some e" and "\<not> blank (stderr res)"
  shows "filter (\<lambda>l. \<not> blank l) (js_lines (stderr res)) \<noteq> [] \<and>
         message e = js ''buildx bake failed with: '' @ js_trim (last_line (stderr res))"
proof -
  from assms(1) have "e = BakeFailed (js ''buildx bake failed with: '' @ extracted (stderr res))"
    by (simp add: classify_def split: if_splits)
  with extracted_last_line [OF assms(2)] nonblank_line_exists [OF assms(2)] show ?thesis
    by simp
qed

theorem failure_message_last_line_witness:
  "classify example_output =
     Some (BakeFailed (js ''buildx bake failed with: ERROR: failed to solve''))
   \<and> \<not> blank (stderr example_output)
   \<and> last_line (stderr example_output) = js ''  ERROR: failed to solve ''
   \<and> message (BakeFailed (js ''buildx bake failed with: ERROR: failed to solve'')) =
       js ''buildx bake failed with: '' @ js_trim (last_line (stderr example_output))"
proof -
  have c: "classify example_output =
      Some (BakeFailed (js ''buildx bake failed with: ERROR: failed to solve''))"
    by code_simp
  have b: "\<not> blank (stderr example_output)"
    by code_simp
  have l: "last_line (stderr example_output) = js ''  ERROR: failed to solve ''"
    by code_simp
  from failure_message_last_line [OF c b] c b l show ?thesis
    by blast
qed

subsection \<open>References from the metadata\<close>

text \<open>
  C4. When the metadata yields references, \<^verbatim>\<open>buildRefs\<close> returns exactly them, in the
  same order, and its only call is the one that resolves them: the builder is not
  inspected and the history store is not scanned, whatever the store holds.
\<close>

theorem metadata_refs_verbatim:
  assumes "resolveRefs w = Inr (Some refs)"
  shows "buildRefs (w\<lparr>history := h\<rparr>) since builder = ([E_resolveRefs], Inr refs)"
  using assms by (simp add: buildRefs_meta)

theorem metadata_refs_verbatim_witness:
  "resolveRefs (example_world\<lparr>resolveRefs := Inr (Some [js ''a'', js ''b''])\<rparr>)
     = Inr (Some [js ''a'', js ''b''])
   \<and> buildRefs (example_world\<lparr>resolveRefs := Inr (Some [js ''a'', js ''b'']), history := []\<rparr>)
       1000 None = ([E_resolveRefs], Inr [js ''a'', js ''b''])"
proof -
  have h: "resolveRefs (example_world\<lparr>resolveRefs := Inr (Some [js ''a'', js ''b''])\<rparr>)
      = Inr (Some [js ''a'', js ''b''])"
    by simp
  from metadata_refs_verbatim [OF h, of "[]" 1000 None] h show ?thesis
    by (rule conjI [rotated])
qed

subsection \<open>No references found\<close>

text \<open>
  C5. A run in which neither tier yields a reference: no metadata, and a history store
  without records. \<^verbatim>\<open>buildRefs\<close> returns the empty array, the condition of line 153 holds
  for it, and the group stores the empty collection; the warning of line 159 is not
  logged.
\<close>

theorem no_refs_found_is_not_warned:
  "group_build_references (example_world\<lparr>history := []\<rparr>) 1000 [] =
     ([E_startGroup (js ''Build references''), E_resolveRefs, E_builderInspect None,
       E_buildxRefs \<lparr>ro_dir = js ''refs'', ro_builderName = Some (js ''X''), ro_since = 1000\<rparr>,
       E_setBuildRefs [], E_endGroup],
      Inr ())"
  by (simp add: group_build_references_def buildRefs_def example_world_def io_eval Let_def
      truthy_opt_array_def truthy_opt_string_def truthy_string_def truthy_array_def
      Buildx_refs_def for_in_def)

subsection \<open>The print pass\<close>

text \<open>
  C6. The print pass and the execution pass run the same command in the same working
  directory with the same environment; the arguments of the print pass are those of
  the execution pass followed by \<^verbatim>\<open>--print\<close>. When the main phase has reached line 125
  and the print pass exits with a non-zero code, the main phase ends there with the
  rejection of that call, and no execution pass appears among its events.
\<close>

theorem print_pass_failure_aborts:
  assumes S: "snd (main_setup w) = Inr (Some cx)"
  shows "(\<exists>rest. fst (main w) = fst (main_setup w) @
            E_startGroup (js ''Bake definition'') #
            E_exec (command (buildCmd cx)) (args (buildCmd cx) @ [js ''--print''])
              \<lparr>eo_cwd = in_workdir (cx_inputs cx), eo_env = buildEnv cx,
               eo_ignoreReturnCode = False\<rparr> # rest) \<and>
         (\<exists>rest. fst (execution_pass w cx) =
            E_getExecOutput (command (buildCmd cx)) (args (buildCmd cx))
              \<lparr>eo_cwd = in_workdir (cx_inputs cx), eo_env = buildEnv cx,
               eo_ignoreReturnCode = True\<rparr> # rest) \<and>
         (\<forall>p. spawn w (command (buildCmd cx)) (args (buildCmd cx) @ [js ''--print''])
                (in_workdir (cx_inputs cx)) (buildEnv cx) = Inr p \<and> exitCode p \<noteq> 0 \<longrightarrow>
              main w =
                (fst (main_setup w) @
                 [E_startGroup (js ''Bake definition''),
                  E_exec (command (buildCmd cx)) (args (buildCmd cx) @ [js ''--print''])
                    \<lparr>eo_cwd = in_workdir (cx_inputs cx), eo_env = buildEnv cx,
                     eo_ignoreReturnCode = False\<rparr>,
                  E_endGroup],
                 Inl (Rejected (exit_failure w (command (buildCmd cx)) (exitCode p))))
              \<and> list_all (\<lambda>ev. \<not> is_getExecOutput ev) (fst (main w)))"
proof -
  let ?opts = "\<lparr>eo_cwd = in_workdir (cx_inputs cx), eo_env = buildEnv cx,
                eo_ignoreReturnCode = False\<rparr>"
  let ?ev = "E_exec (command (buildCmd cx)) (args (buildCmd cx) @ [js ''--print'']) ?opts"
  note main = main_after_setup [OF S]
  have "\<exists>r. fst (Exec_exec w (command (buildCmd cx)) (args (buildCmd cx) @ [js ''--print'']) ?opts)
          = ?ev # r"
    using fst_io_bind_prefix [of "call ?ev (spawn w (command (buildCmd cx))
        (args (buildCmd cx) @ [js ''--print'']) (in_workdir (cx_inputs cx)) (buildEnv cx))"]
    by (simp add: Exec_exec_def call_def)
  then obtain r where "fst (io_bind (Exec_exec w (command (buildCmd cx))
        (args (buildCmd cx) @ [js ''--print'']) ?opts) (\<lambda>_. io_return ())) = ?ev # r"
    using fst_io_bind_prefix [of "Exec_exec w (command (buildCmd cx))
        (args (buildCmd cx) @ [js ''--print'']) ?opts" "\<lambda>_. io_return ()"]
    by auto
  then have "\<exists>r. fst (group_bake_definition w cx) = E_startGroup (js ''Bake definition'') # ?ev # r"
    by (simp add: group_bake_definition_def fst_group)
  moreover have "\<exists>r. fst (main_bake w cx) = fst (group_bake_definition w cx) @ r"
    unfolding main_bake_def by (rule fst_io_bind_prefix)
  ultimately have first: "\<exists>rest. fst (main w) = fst (main_setup w) @
      E_startGroup (js ''Bake definition'') # ?ev # rest"
    using main by auto
  have third: "main w = (fst (main_setup w) @ [E_startGroup (js ''Bake definition''), ?ev, E_endGroup],
           Inl (Rejected (exit_failure w (command (buildCmd cx)) (exitCode p))))
        \<and> list_all (\<lambda>ev. \<not> is_getExecOutput ev) (fst (main w))"
    if p: "spawn w (command (buildCmd cx)) (args (buildCmd cx) @ [js ''--print''])
             (in_workdir (cx_inputs cx)) (buildEnv cx) = Inr p" and nz: "exitCode p \<noteq> 0" for p
  proof -
    from p nz have "main_bake w cx = ([E_startGroup (js ''Bake definition''), ?ev, E_endGroup],
        Inl (Rejected (exit_failure w (command (buildCmd cx)) (exitCode p))))"
      by (simp add: main_bake_def group_bake_definition_def Exec_exec_def io_eval)
    with main have eq: "main w = (fst (main_setup w) @ [E_startGroup (js ''Bake definition''), ?ev, E_endGroup],
        Inl (Rejected (exit_failure w (command (buildCmd cx)) (exitCode p))))"
      by simp
    with main_setup_no_execution [of w] show ?thesis by simp
  qed
  from first fst_execution_pass [of w cx] third show ?thesis by blast
qed

theorem print_pass_failure_aborts_witness:
  "snd (main_setup (example_world\<lparr>spawn := \<lambda>_ _ _ _. Inr example_output\<rparr>)) = Inr (Some example_context)
   \<and> snd (main (example_world\<lparr>spawn := \<lambda>_ _ _ _. Inr example_output\<rparr>)) = Inl (Rejected (js ''failed''))
   \<and> list_all (\<lambda>ev. \<not> is_getExecOutput ev)
       (fst (main (example_world\<lparr>spawn := \<lambda>_ _ _ _. Inr example_output\<rparr>)))"
proof -
  let ?w = "example_world\<lparr>spawn := \<lambda>_ _ _ _. Inr example_output\<rparr>"
  have S: "snd (main_setup ?w) = Inr (Some example_context)"
    by code_simp
  have p: "spawn ?w (command (buildCmd example_context))
      (args (buildCmd example_context) @ [js ''--print''])
      (in_workdir (cx_inputs example_context)) (buildEnv example_context) = Inr example_output
      \<and> exitCode example_output \<noteq> 0"
    by (simp add: example_output_def)
  have f: "exit_failure ?w (command (buildCmd example_context)) (exitCode example_output) = js ''failed''"
    by (simp add: example_world_def)
  from print_pass_failure_aborts [OF S] p
  have "main ?w =
          (fst (main_setup ?w) @
           [E_startGroup (js ''Bake definition''),
            E_exec (command (buildCmd example_context)) (args (buildCmd example_context) @ [js ''--print''])
              \<lparr>eo_cwd = in_workdir (cx_inputs example_context), eo_env = buildEnv example_context,
               eo_ignoreReturnCode = False\<rparr>,
            E_endGroup],
           Inl (Rejected (exit_failure ?w (command (buildCmd example_context)) (exitCode example_output))))
        \<and> list_all (\<lambda>ev. \<not> is_getExecOutput ev) (fst (main ?w))"
    (is "?A \<and> ?B")
    by blast
  then have A: ?A and b: ?B
    by blast+
  from A have a: "snd (main ?w) =
      Inl (Rejected (exit_failure ?w (command (buildCmd example_context)) (exitCode example_output)))"
    by simp
  from a f have "snd (main ?w) = Inl (Rejected (js ''failed''))"
    by (simp only:)
  with S b show ?thesis by blast
qed

subsection \<open>The scan of the history store\<close>

text \<open>
  C7. In a run that reached line 125 with no builder named in the inputs and without
  references in the metadata, \<^verbatim>\<open>buildRefs\<close> inspects the default builder; when that
  builder has the name \<open>n\<close>, the store is scanned for \<open>n\<close> since the time that was read
  as the first event of the run, and the result consists of the identifiers of the
  records of builder \<open>n\<close> created at or after that time, and of no other record.
\<close>

theorem history_scan_default_builder:
  assumes S: "snd (main_setup w) = Inr (Some cx)"
    and unnamed: "in_builder (cx_inputs cx) = []"
    and nometa: "resolveRefs w = Inr None"
    and inspect: "builder_inspect w None = Inr b"
    and named: "name b = Some n" "n \<noteq> []"
  shows "(\<exists>t. fst (main_setup w) = E_newDate # t) \<and> startedTime cx = now w \<and>
         (\<exists>refs. buildRefs w (startedTime cx) (Some (in_builder (cx_inputs cx))) =
            ([E_resolveRefs, E_builderInspect None,
              E_buildxRefs \<lparr>ro_dir = refsDir w, ro_builderName = Some n, ro_since = now w\<rparr>],
             Inr refs) \<and>
            set refs = ref_id ` {r \<in> set (history w). rec_builder r = n \<and> now w \<le> created r})"
proof -
  have t: "startedTime cx = now w"
    using S by (rule main_setup_started)
  have falsy: "\<not> truthy_opt_string (Some (in_builder (cx_inputs cx)))"
    using unnamed by (simp add: truthy_opt_string_def truthy_string_def)
  let ?opts = "\<lparr>ro_dir = refsDir w, ro_builderName = Some n, ro_since = now w\<rparr>"
  have eq: "buildRefs w (startedTime cx) (Some (in_builder (cx_inputs cx))) =
      ([E_resolveRefs, E_builderInspect None, E_buildxRefs ?opts],
       Inr (map fst (Buildx_refs (history w) ?opts)))"
    using buildRefs_default [OF nometa falsy inspect, of "startedTime cx"] named t by simp
  have "record_matches ?opts r = (rec_builder r = n \<and> now w \<le> created r)" for r
    using named by (auto simp: record_matches_def truthy_opt_string_def truthy_string_def)
  then have "set (map fst (Buildx_refs (history w) ?opts)) =
      ref_id ` {r \<in> set (history w). rec_builder r = n \<and> now w \<le> created r}"
    by (simp add: keys_Buildx_refs)
  with eq t main_setup_first [of w] show ?thesis by blast
qed

theorem history_scan_default_builder_witness:
  "snd (main_setup example_world) = Inr (Some example_context)
   \<and> in_builder (cx_inputs example_context) = []
   \<and> resolveRefs example_world = Inr None
   \<and> builder_inspect example_world None = Inr \<lparr>name = Some (js ''X''), driver = Some (js ''docker'')\<rparr>
   \<and> js ''X'' \<noteq> []
   \<and> (\<exists>refs. buildRefs example_world (startedTime example_context)
                (Some (in_builder (cx_inputs example_context))) =
          ([E_resolveRefs, E_builderInspect None,
            E_buildxRefs \<lparr>ro_dir = refsDir example_world, ro_builderName = Some (js ''X''),
                          ro_since = now example_world\<rparr>],
           Inr refs) \<and>
          set refs = ref_id ` {r \<in> set (history example_world).
                                 rec_builder r = js ''X'' \<and> now example_world \<le> created r})"
proof -
  have S: "snd (main_setup example_world) = Inr (Some example_context)"
    by code_simp
  have u: "in_builder (cx_inputs example_context) = []"
    by (simp add: example_context_def example_inputs_def)
  have m: "resolveRefs example_world = Inr None"
    by (simp add: example_world_def)
  have i: "builder_inspect example_world None =
      Inr \<lparr>name = Some (js ''X''), driver = Some (js ''docker'')\<rparr>"
    by (simp add: example_world_def)
  have n: "name \<lparr>name = Some (js ''X''), driver = Some (js ''docker'')\<rparr> = Some (js ''X'')"
    by simp
  have x: "js ''X'' \<noteq> []"
    by (simp add: js_def)
  from history_scan_default_builder [OF S u m i n x] S u m i x show ?thesis
    by blast
qed

subsection \<open>The post phase without references\<close>

text \<open>
  C8. With an empty collection of build references the post phase makes no export,
  upload or summary call: if a temp directory was recorded, its only events are those
  of the group that removes it recursively, and its outcome is that of the removal;
  otherwise it does nothing at all.
\<close>

theorem post_without_refs:
  assumes "st_buildRefs st = []"
  shows "post w st =
     (if st_tmpDir st \<noteq> []
      then ([E_startGroup (js ''Removing temp folder '' @ st_tmpDir st),
             E_rmSync (st_tmpDir st) True, E_endGroup],
            outcome (rmSync w (st_tmpDir st)))
      else ([], Inr ()))"
  using assms by (simp add: post_def io_eval call_def)

theorem post_without_refs_witness:
  "st_buildRefs (example_post_state\<lparr>st_buildRefs := []\<rparr>) = []
   \<and> post example_post_world (example_post_state\<lparr>st_buildRefs := []\<rparr>) =
       ([E_startGroup (js ''Removing temp folder /tmp/x''), E_rmSync (js ''/tmp/x'') True,
         E_endGroup],
        Inr ())"
proof -
  let ?st = "example_post_state\<lparr>st_buildRefs := []\<rparr>"
  have h: "st_buildRefs ?st = []"
    by simp
  have t: "st_tmpDir ?st = js ''/tmp/x''" "js ''/tmp/x'' \<noteq> []"
    by (simp_all add: example_post_state_def js_def)
  have r: "outcome (rmSync example_post_world (js ''/tmp/x'')) = Inr ()"
    by (simp add: example_post_world_def outcome_def)
  have j: "js ''Removing temp folder '' @ js ''/tmp/x'' = js ''Removing temp folder /tmp/x''"
    by (simp add: js_def)
  from post_without_refs [OF h, of example_post_world] t r j
  have "post example_post_world ?st =
       ([E_startGroup (js ''Removing temp folder /tmp/x''), E_rmSync (js ''/tmp/x'') True,
         E_endGroup], Inr ())"
    by simp
  with h show ?thesis by blast
qed

subsection \<open>Failures of the summary chain\<close>

text \<open>
  C9. In a post phase that enters the chain of export, upload and summary (there are
  build references, the summary is not disabled, the builder's driver is not
  \<^verbatim>\<open>cloud\<close>), a failure \<open>e\<close> of the chain is followed by the warning with the message of
  \<open>e\<close> and by nothing else of the chain; whether the chain failed or not, the group is
  closed, then the temp directory, if one was recorded, is removed, and the outcome of
  the post phase is the outcome of that removal alone.
\<close>

theorem summary_failure_is_a_warning:
  assumes refs: "st_buildRefs st \<noteq> []"
    and enabled: "pw_no_summary w = None \<or> pw_no_summary w = Some [] \<or>
                  (\<exists>v. pw_no_summary w = Some v \<and> parseBool w v = Inr False)"
    and not_cloud: "st_builder st = None \<or>
                    (\<exists>b. st_builder st = Some b \<and> driver b \<noteq> Some (js ''cloud''))"
  shows "post w st =
     (E_startGroup (js ''Generating build summary'') # fst (summary_chain w st) @
        (case snd (summary_chain w st) of Inl e \<Rightarrow> [E_warning (message e)] | Inr _ \<Rightarrow> []) @
        [E_endGroup] @
        (if st_tmpDir st \<noteq> []
         then [E_startGroup (js ''Removing temp folder '' @ st_tmpDir st),
               E_rmSync (st_tmpDir st) True, E_endGroup]
         else []),
      if st_tmpDir st \<noteq> [] then outcome (rmSync w (st_tmpDir st)) else Inr ())"
proof -
  have guard: "(if truthy_opt_string (pw_no_summary w)
         then ([], outcome (parseBool w (case pw_no_summary w of Some v \<Rightarrow> v | None \<Rightarrow> [])))
         else io_return False) = ([], Inr False)"
    using enabled
    by (auto simp: truthy_opt_string_def truthy_string_def outcome_def io_return_def)
  have cloud: "\<not> (case st_builder st of Some b \<Rightarrow> driver b = Some (js ''cloud'') | None \<Rightarrow> False)"
    using not_cloud by auto
  have summary: "group_summary w st =
      (E_startGroup (js ''Generating build summary'') # fst (summary_chain w st) @
         (case snd (summary_chain w st) of Inl e \<Rightarrow> [E_warning (message e)] | Inr _ \<Rightarrow> []) @
         [E_endGroup], Inr ())"
    unfolding group_summary_def guard
    using cloud
    by (cases "summary_chain w st") (simp add: io_eval split: sum.splits)
  with refs show ?thesis
    by (simp add: post_def io_eval call_def)
qed

theorem summary_failure_is_a_warning_witness:
  "st_buildRefs example_post_state \<noteq> []
   \<and> pw_no_summary example_post_world = None
   \<and> st_builder example_post_state = None
   \<and> snd (summary_chain example_post_world example_post_state) = Inl (Rejected (js ''export failed''))
   \<and> post example_post_world example_post_state =
       ([E_startGroup (js ''Generating build summary''), E_historyExport [js ''X/n/new''],
         E_warning (js ''export failed''), E_endGroup,
         E_startGroup (js ''Removing temp folder /tmp/x''), E_rmSync (js ''/tmp/x'') True,
         E_endGroup],
        Inr ())"
proof -
  have r: "st_buildRefs example_post_state \<noteq> []"
    by (simp add: example_post_state_def)
  have n: "pw_no_summary example_post_world = None"
    by (simp add: example_post_world_def)
  have b: "st_builder example_post_state = None"
    by (simp add: example_post_state_def)
  have c: "summary_chain example_post_world example_post_state =
      ([E_historyExport [js ''X/n/new'']], Inl (Rejected (js ''export failed'')))"
    by (simp add: summary_chain_def example_post_world_def example_post_state_def io_eval)
  have t: "st_tmpDir example_post_state = js ''/tmp/x''" "js ''/tmp/x'' \<noteq> []"
    by (simp_all add: example_post_state_def js_def)
  have o: "outcome (rmSync example_post_world (js ''/tmp/x'')) = Inr ()"
    by (simp add: example_post_world_def outcome_def)
  have j: "js ''Removing temp folder '' @ js ''/tmp/x'' = js ''Removing temp folder /tmp/x''"
    by (simp add: js_def)
  from summary_failure_is_a_warning [of example_post_state example_post_world] r n b
  have "post example_post_world example_post_state =
     (E_startGroup (js ''Generating build summary'') #
        fst (summary_chain example_post_world example_post_state) @
        (case snd (summary_chain example_post_world example_post_state) of
           Inl e \<Rightarrow> [E_warning (message e)] | Inr _ \<Rightarrow> []) @
        [E_endGroup] @
        (if st_tmpDir example_post_state \<noteq> []
         then [E_startGroup (js ''Removing temp folder '' @ st_tmpDir example_post_state),
               E_rmSync (st_tmpDir example_post_state) True, E_endGroup]
         else []),
      if st_tmpDir example_post_state \<noteq> []
      then outcome (rmSync example_post_world (st_tmpDir example_post_state)) else Inr ())"
    by blast
  with c t o j have "post example_post_world example_post_state =
       ([E_startGroup (js ''Generating build summary''), E_historyExport [js ''X/n/new''],
         E_warning (js ''export failed''), E_endGroup,
         E_startGroup (js ''Removing temp folder /tmp/x''), E_rmSync (js ''/tmp/x'') True,
         E_endGroup], Inr ())"
    by simp
  with r n b c show ?thesis by simp
qed

subsection \<open>The result of the resolver is an array\<close>

text \<open>
  C10. The value of \<^verbatim>\<open>buildRefs\<close> is an array, for which the condition of line 153
  holds: an empty array from the metadata is returned as it is, with no scan of the
  history store; whenever \<^verbatim>\<open>buildRefs\<close> returns, the group logs every reference and
  stores the list, empty or not; and the warning of line 159 is never logged.
\<close>

theorem buildRefs_result_is_truthy:
  "(resolveRefs w = Inr (Some []) \<longrightarrow> buildRefs w since builder = ([E_resolveRefs], Inr [])) \<and>
   (\<forall>refs. snd (buildRefs w since (Some b)) = Inr refs \<longrightarrow>
      truthy_array refs \<and>
      group_build_references w since b =
        (E_startGroup (js ''Build references'') # fst (buildRefs w since (Some b)) @
           map E_info refs @ [E_setBuildRefs refs, E_endGroup],
         Inr ())) \<and>
   E_warning (js ''No build refs found'') \<notin> set (fst (group_build_references w since b))"
proof -
  have nw: "E_warning (js ''No build refs found'') \<notin> set (fst (buildRefs w since (Some b)))"
    by (cases rule: buildRefs_cases [of w since "Some b"]) auto
  have "E_warning (js ''No build refs found'') \<notin> set (fst (group_build_references w since b))"
  proof (cases "snd (buildRefs w since (Some b))")
    case (Inl e)
    then have "group_build_references w since b =
        (E_startGroup (js ''Build references'') # fst (buildRefs w since (Some b)) @ [E_endGroup],
         Inl e)"
      by (simp add: group_build_references_def io_bind_Inl group_pair)
    with nw show ?thesis by simp
  next
    case (Inr refs)
    from snd_group_build_references [OF Inr] nw show ?thesis by auto
  qed
  then show ?thesis
    by (auto simp: buildRefs_meta snd_group_build_references truthy_array_def)
qed

theorem buildRefs_result_is_truthy_witness:
  "resolveRefs (example_world\<lparr>resolveRefs := Inr (Some [])\<rparr>) = Inr (Some [])
   \<and> buildRefs (example_world\<lparr>resolveRefs := Inr (Some [])\<rparr>) 1000 None = ([E_resolveRefs], Inr [])
   \<and> snd (buildRefs (example_world\<lparr>resolveRefs := Inr (Some [])\<rparr>) 1000 (Some [])) = Inr []
   \<and> group_build_references (example_world\<lparr>resolveRefs := Inr (Some [])\<rparr>) 1000 [] =
       ([E_startGroup (js ''Build references''), E_resolveRefs, E_setBuildRefs [], E_endGroup],
        Inr ())"
proof -
  let ?w = "example_world\<lparr>resolveRefs := Inr (Some [])\<rparr>"
  have h: "resolveRefs ?w = Inr (Some [])"
    by simp
  from buildRefs_result_is_truthy [of ?w 1000 None "[]"] h
  have a: "buildRefs ?w 1000 None = ([E_resolveRefs], Inr [])"
    by blast
  from buildRefs_result_is_truthy [of ?w 1000 "Some []" "[]"] h
  have b: "buildRefs ?w 1000 (Some []) = ([E_resolveRefs], Inr [])"
    by blast
  then have s: "snd (buildRefs ?w 1000 (Some [])) = Inr []"
    by simp
  from buildRefs_result_is_truthy [of ?w 1000 None "[]"] s
  have "group_build_references ?w 1000 [] =
        (E_startGroup (js ''Build references'') # fst (buildRefs ?w 1000 (Some [])) @
           map E_info [] @ [E_setBuildRefs [], E_endGroup], Inr ())"
    by blast
  with b have "group_build_references ?w 1000 [] =
       ([E_startGroup (js ''Build references''), E_resolveRefs, E_setBuildRefs [], E_endGroup], Inr ())"
    by simp
  with h a s show ?thesis by blast
qed


end
